theory Spec2Isabelle
  imports Main
begin

section \<open>Python values used by davislib.models\<close>

text \<open>
  The values that reach the data containers and the constructors of the applications:
  \<open>None\<close>, integers and strings.  \<open>py_truthy\<close> is Python's truth test
  (\<open>if x:\<close>), \<open>py_eq\<close> is \<open>==\<close> and \<open>py_str\<close> is \<open>str(x)\<close>, which is also
  what \<open>'{0}'.format(x)\<close> inserts for these values.
\<close>

datatype pyval = PNone | PInt int | PStr string

fun py_truthy :: "pyval \<Rightarrow> bool" where
  "py_truthy PNone = False"
| "py_truthy (PInt i) = (i \<noteq> 0)"
| "py_truthy (PStr s) = (s \<noteq> [])"

definition py_eq :: "pyval \<Rightarrow> pyval \<Rightarrow> bool" where
  "py_eq a b = (a = b)"

definition digit_char :: "nat \<Rightarrow> char" where
  "digit_char d = ''0123456789'' ! d"

function str_nat :: "nat \<Rightarrow> string" where
  "str_nat n = (if n < 10 then [digit_char n]
                else str_nat (n div 10) @ [digit_char (n mod 10)])"
  by pat_completeness auto
termination
  by (relation "measure (\<lambda>n. n)") auto

declare str_nat.simps [simp del]

fun py_str :: "pyval \<Rightarrow> string" where
  "py_str PNone = ''None''"
| "py_str (PInt i) = (if i < 0 then CHR ''-'' # str_nat (nat (- i)) else str_nat (nat i))"
| "py_str (PStr s) = s"

section \<open>Data containers\<close>

subsection \<open>Term\<close>

datatype Session =
    FALL_QUARTER | FALL_SEMESTER | SUMMER_SESSION_2 | SUMMER_SPECIAL
  | SUMMER_SESSION_1 | SPRING_QUARTER | SPRING_SEMESTER | WINTER_QUARTER

fun Session_value :: "Session \<Rightarrow> string" where
  "Session_value FALL_QUARTER = ''10''"
| "Session_value FALL_SEMESTER = ''09''"
| "Session_value SUMMER_SESSION_2 = ''07''"
| "Session_value SUMMER_SPECIAL = ''06''"
| "Session_value SUMMER_SESSION_1 = ''05''"
| "Session_value SPRING_QUARTER = ''03''"
| "Session_value SPRING_SEMESTER = ''02''"
| "Session_value WINTER_QUARTER = ''01''"

definition Session_members :: "Session list" where
  "Session_members =
     [FALL_QUARTER, FALL_SEMESTER, SUMMER_SESSION_2, SUMMER_SPECIAL,
      SUMMER_SESSION_1, SPRING_QUARTER, SPRING_SEMESTER, WINTER_QUARTER]"

definition Session_values :: "string list" where
  "Session_values = map Session_value Session_members"

datatype exn =
    ValueError | KeyError | AttributeError | InvalidLoginError | TransportError

text \<open>
  \<open>Term.Session(session)\<close>: the enumeration is called with one of its members, which is
  returned, or with a value, which is looked up among the members' values; any other
  argument raises \<open>ValueError\<close>.
\<close>

datatype session_arg = Member Session | Value pyval

fun Session_call :: "session_arg \<Rightarrow> exn + Session" where
  "Session_call (Member m) = Inr m"
| "Session_call (Value (PStr s)) =
     (case find (\<lambda>m. Session_value m = s) Session_members of
        None \<Rightarrow> Inl ValueError
      | Some m \<Rightarrow> Inr m)"
| "Session_call (Value v) = Inl ValueError"

text \<open>
  A \<open>Term\<close> instance.  \<open>oid\<close> is the identity of the object (what \<open>id(t)\<close> returns and
  what the default \<open>==\<close> of Python objects compares); the constructor receives it from
  the allocator.
\<close>

record Term =
  oid :: nat
  year :: pyval
  session :: Session

definition Term_init :: "nat \<Rightarrow> pyval \<Rightarrow> session_arg \<Rightarrow> exn + Term" where
  "Term_init a y sa =
     (case Session_call sa of
        Inl e \<Rightarrow> Inl e
      | Inr m \<Rightarrow> Inr \<lparr>oid = a, year = y, session = m\<rparr>)"

definition code :: "Term \<Rightarrow> string" where
  "code t = py_str (year t) @ Session_value (session t)"

definition Term_eq :: "Term \<Rightarrow> Term \<Rightarrow> bool" where
  "Term_eq self other =
     (py_str (year self) = py_str (year other) \<and> session self = session other)"

subsection \<open>Course\<close>

text \<open>
  The keyword arguments \<open>**attrs\<close> are a dictionary from attribute names to values of
  any kind (strings, numbers, lists, dates): the type \<open>'a\<close>.  A missing key makes the
  constructor raise \<open>KeyError\<close>.  The fields \<open>course_term\<close> and \<open>section_code\<close>
  are the attributes \<open>term\<close> and \<open>section\<close> of the source.
\<close>

record 'a Course =
  crn :: pyval
  course_term :: Term
  name :: 'a
  number :: 'a
  section_code :: 'a
  title :: 'a
  units :: 'a
  instructor :: 'a
  subject :: 'a
  ge_credit :: 'a
  available_seats :: 'a
  max_enrollment :: 'a
  meetings :: 'a
  description :: 'a
  final_exam :: 'a
  drop_time :: 'a

definition getitem :: "('k \<times> 'v) list \<Rightarrow> 'k \<Rightarrow> exn + 'v" where
  "getitem d k = (case map_of d k of None \<Rightarrow> Inl KeyError | Some v \<Rightarrow> Inr v)"

definition ebind :: "exn + 'a \<Rightarrow> ('a \<Rightarrow> exn + 'b) \<Rightarrow> exn + 'b" where
  "ebind m f = (case m of Inl e \<Rightarrow> Inl e | Inr x \<Rightarrow> f x)"

definition Course_init ::
  "pyval \<Rightarrow> Term \<Rightarrow> (string \<times> 'a) list \<Rightarrow> exn + 'a Course" where
  "Course_init c t attrs =
     ebind (getitem attrs ''name'') (\<lambda>a1.
     ebind (getitem attrs ''number'') (\<lambda>a2.
     ebind (getitem attrs ''section'') (\<lambda>a3.
     ebind (getitem attrs ''title'') (\<lambda>a4.
     ebind (getitem attrs ''units'') (\<lambda>a5.
     ebind (getitem attrs ''instructor'') (\<lambda>a6.
     ebind (getitem attrs ''subject'') (\<lambda>a7.
     ebind (getitem attrs ''ge_credit'') (\<lambda>a8.
     ebind (getitem attrs ''available_seats'') (\<lambda>a9.
     ebind (getitem attrs ''max_enrollment'') (\<lambda>a10.
     ebind (getitem attrs ''meetings'') (\<lambda>a11.
     ebind (getitem attrs ''description'') (\<lambda>a12.
     ebind (getitem attrs ''final_exam'') (\<lambda>a13.
     ebind (getitem attrs ''drop_time'') (\<lambda>a14.
       Inr \<lparr>crn = c, course_term = t, name = a1, number = a2, section_code = a3,
            title = a4, units = a5, instructor = a6, subject = a7, ge_credit = a8,
            available_seats = a9, max_enrollment = a10, meetings = a11,
            description = a12, final_exam = a13, drop_time = a14\<rparr>))))))))))))))"

definition Course_eq :: "'a Course \<Rightarrow> 'a Course \<Rightarrow> bool" where
  "Course_eq self other =
     (py_eq (crn self) (crn other) \<and> Term_eq (course_term self) (course_term other))"

section \<open>Applications\<close>

subsection \<open>Dictionaries and substring tests\<close>

text \<open>
  A Python dictionary keeps its keys in insertion order; \<open>d[k] = v\<close> replaces the value
  of an existing key in place and appends a new key.  \<open>dict_update\<close> is
  \<open>d.update(kvs)\<close>.  \<open>contains sub txt\<close> is the test \<open>sub in txt\<close> on strings.
\<close>

fun dict_set :: "'k \<Rightarrow> 'v \<Rightarrow> ('k \<times> 'v) list \<Rightarrow> ('k \<times> 'v) list" where
  "dict_set k v [] = [(k, v)]"
| "dict_set k v (kv # d) = (if fst kv = k then (k, v) # d else kv # dict_set k v d)"

definition dict_update :: "('k \<times> 'v) list \<Rightarrow> ('k \<times> 'v) list \<Rightarrow> ('k \<times> 'v) list" where
  "dict_update d kvs = fold (\<lambda>kv. dict_set (fst kv) (snd kv)) kvs d"

fun startswith :: "string \<Rightarrow> string \<Rightarrow> bool" where
  "startswith txt [] = True"
| "startswith [] (c # cs) = False"
| "startswith (t # ts) (c # cs) = (t = c \<and> startswith ts cs)"

fun contains :: "string \<Rightarrow> string \<Rightarrow> bool" where
  "contains sub [] = (sub = [])"
| "contains sub (t # ts) = (startswith (t # ts) sub \<or> contains sub ts)"

subsection \<open>The HTTP session of the requests library\<close>

text \<open>
  What the code uses of \<open>requests\<close>: a session object holds headers and a cookie jar.
  \<open>Session.request\<close> hands the request, with the session's headers and jar, to the
  library and the network, and returns the response (final URL after redirects and
  body) or raises; the jar of the session is afterwards as the library has left it.
  Which cookies of the jar go to which URL, which cookies of a response are stored,
  under which domain, path and expiry, and what is exchanged while redirects are
  followed, is the library's business: the jar is a type parameter, and the library
  with the remote servers is the parameter \<open>transport\<close>, which answers a request from
  the servers' state with a response or an exception, the jar and the new state.

  Sessions live in a store and clients hold references to them, so that two clients
  can hold the same session.

  \<open>log\<close> and \<open>logins\<close> are history variables: the requests handed to the transport,
  in order, and the number of calls of \<open>auth()\<close>.  No branch of the model reads them.
\<close>

record 'jar http_session =
  headers :: "(string \<times> string) list"
  cookies :: 'jar

datatype kwval = KVal pyval | KDict "(string \<times> pyval) list"

record 'jar wire_request =
  http_method :: string
  req_url :: string
  kwargs :: "(string \<times> kwval) list"
  sent_headers :: "(string \<times> string) list"
  sent_cookies :: 'jar

record response =
  url :: string
  body_text :: string

datatype node =
    Tag (tag_name: string) (attrs: "(string \<times> string) list") (children: "node list")
  | NavigableString string

record ('jar, 'srv) env =
  transport :: "'jar wire_request \<Rightarrow> 'srv \<Rightarrow> (exn + response) \<times> 'jar \<times> 'srv"
  default_headers :: "(string \<times> string) list"
  empty_jar :: 'jar
  BeautifulSoup :: "string \<Rightarrow> node"

record ('jar, 'srv) world =
  sessions :: "nat \<Rightarrow> 'jar http_session"
  next_ref :: nat
  server :: 'srv
  log :: "'jar wire_request list"
  logins :: nat

type_synonym ('a, 'jar, 'srv) action =
  "('jar, 'srv) world \<Rightarrow> (exn + 'a) \<times> ('jar, 'srv) world"

definition ret :: "'a \<Rightarrow> ('a, 'jar, 'srv) action" where
  "ret x = (\<lambda>w. (Inr x, w))"

definition raise :: "exn \<Rightarrow> ('a, 'jar, 'srv) action" where
  "raise e = (\<lambda>w. (Inl e, w))"

definition andthen ::
  "('a, 'jar, 'srv) action \<Rightarrow> ('a \<Rightarrow> ('b, 'jar, 'srv) action) \<Rightarrow> ('b, 'jar, 'srv) action" where
  "andthen m f = (\<lambda>w. case m w of (Inl e, w') \<Rightarrow> (Inl e, w') | (Inr x, w') \<Rightarrow> f x w')"

definition lift :: "exn + 'a \<Rightarrow> ('a, 'jar, 'srv) action" where
  "lift m = (case m of Inl e \<Rightarrow> raise e | Inr x \<Rightarrow> ret x)"

definition requests_Session :: "('jar, 'srv) env \<Rightarrow> (nat, 'jar, 'srv) action" where
  "requests_Session E w =
     (Inr (next_ref w),
      w\<lparr>sessions := (sessions w)(next_ref w :=
                       \<lparr>headers = default_headers E, cookies = empty_jar E\<rparr>),
        next_ref := Suc (next_ref w)\<rparr>)"

definition headers_update :: "nat \<Rightarrow> (string \<times> string) list \<Rightarrow> (unit, 'jar, 'srv) action" where
  "headers_update r kvs w =
     (Inr (),
      w\<lparr>sessions := (sessions w)(r :=
          (sessions w r)\<lparr>headers := dict_update (headers (sessions w r)) kvs\<rparr>)\<rparr>)"

text \<open>
  \<open>wire\<close> is the request as the session hands it over, with the headers and the jar
  of the session at that moment; \<open>answered\<close> is the world after the transport has
  answered: the servers' new state, the request added to the history, and the jar
  that the library has left in the session.
\<close>

definition wire ::
  "('jar, 'srv) world \<Rightarrow> nat \<Rightarrow> string \<Rightarrow> string \<Rightarrow> (string \<times> kwval) list
     \<Rightarrow> 'jar wire_request" where
  "wire w r m u kw =
     \<lparr>http_method = m, req_url = u, kwargs = kw,
      sent_headers = headers (sessions w r), sent_cookies = cookies (sessions w r)\<rparr>"

definition answered ::
  "nat \<Rightarrow> 'jar wire_request \<Rightarrow> 'jar \<Rightarrow> 'srv \<Rightarrow> ('jar, 'srv) world \<Rightarrow> ('jar, 'srv) world" where
  "answered r q j srv w =
     w\<lparr>server := srv, log := log w @ [q],
       sessions := (sessions w)(r := (sessions w r)\<lparr>cookies := j\<rparr>)\<rparr>"

definition Session_request ::
  "('jar, 'srv) env \<Rightarrow> nat \<Rightarrow> string \<Rightarrow> string \<Rightarrow> (string \<times> kwval) list
     \<Rightarrow> (response, 'jar, 'srv) action" where
  "Session_request E r m u kw w =
     (let q = wire w r m u kw; ans = transport E q (server w)
      in (fst ans, answered r q (fst (snd ans)) (snd (snd ans)) w))"

subsection \<open>Instances of the application classes\<close>

text \<open>
  An instance has its class and the attributes that the constructors of the module
  assign; \<open>None\<close> is an attribute that has not been assigned, whose lookup raises
  \<open>AttributeError\<close>.  \<open>s\<close> is a reference to a session in the store.
\<close>

datatype cls = Application | ProtectedApplication | CAS

datatype obj =
  Obj (cls: cls) (s: "nat option") (username: "pyval option") (password: "pyval option")
      (auth_service: "obj option")

datatype arg = AVal pyval | AObj obj

definition new_obj :: "cls \<Rightarrow> obj" where
  "new_obj c = Obj c None None None None"

fun set_s :: "nat \<Rightarrow> obj \<Rightarrow> obj" where
  "set_s r (Obj c x u p a) = Obj c (Some r) u p a"

fun set_username :: "pyval \<Rightarrow> obj \<Rightarrow> obj" where
  "set_username v (Obj c x u p a) = Obj c x (Some v) p a"

fun set_password :: "pyval \<Rightarrow> obj \<Rightarrow> obj" where
  "set_password v (Obj c x u p a) = Obj c x u (Some v) a"

fun set_auth_service :: "obj \<Rightarrow> obj \<Rightarrow> obj" where
  "set_auth_service v (Obj c x u p a) = Obj c x u p (Some v)"

fun issubclass :: "cls \<Rightarrow> cls \<Rightarrow> bool" where
  "issubclass c Application = True"
| "issubclass c ProtectedApplication = (c = ProtectedApplication)"
| "issubclass c CAS = (c = CAS)"

fun isinstance :: "arg \<Rightarrow> cls \<Rightarrow> bool" where
  "isinstance (AVal v) c = False"
| "isinstance (AObj x) c = issubclass (cls x) c"

text \<open>The classes define neither \<open>__bool__\<close> nor \<open>__len__\<close>: an instance is true.\<close>

fun arg_truthy :: "arg \<Rightarrow> bool" where
  "arg_truthy (AVal v) = py_truthy v"
| "arg_truthy (AObj x) = True"

definition py_and :: "pyval \<Rightarrow> pyval \<Rightarrow> pyval" where
  "py_and a b = (if py_truthy a then b else a)"

fun getattr_s :: "arg \<Rightarrow> exn + nat" where
  "getattr_s (AVal v) = Inl AttributeError"
| "getattr_s (AObj x) = (case s x of None \<Rightarrow> Inl AttributeError | Some r \<Rightarrow> Inr r)"

fun getattr_username :: "arg \<Rightarrow> exn + pyval" where
  "getattr_username (AVal v) = Inl AttributeError"
| "getattr_username (AObj x) =
     (case username x of None \<Rightarrow> Inl AttributeError | Some v \<Rightarrow> Inr v)"

fun getattr_password :: "arg \<Rightarrow> exn + pyval" where
  "getattr_password (AVal v) = Inl AttributeError"
| "getattr_password (AObj x) =
     (case password x of None \<Rightarrow> Inl AttributeError | Some v \<Rightarrow> Inr v)"

subsection \<open>Application\<close>

definition USER_AGENT :: string where
  "USER_AGENT = ''Mozilla/5.0 (Macintosh; Intel Mac OS X 10_10_1) AppleWebKit/537'' @
                ''.36 (KHTML, like Gecko) Chrome/40.0.2214.115 Safari/537.36''"

definition Application_init :: "('jar, 'srv) env \<Rightarrow> obj \<Rightarrow> arg \<Rightarrow> (obj, 'jar, 'srv) action" where
  "Application_init E self shared_app =
     (if arg_truthy shared_app then
        (if isinstance shared_app Application then
           andthen (lift (getattr_s shared_app)) (\<lambda>r. ret (set_s r self))
         else raise ValueError)
      else
        andthen (requests_Session E) (\<lambda>r.
        andthen (headers_update r [(''User-Agent'', USER_AGENT)]) (\<lambda>_.
        ret (set_s r self))))"

definition Application_request ::
  "('jar, 'srv) env \<Rightarrow> obj \<Rightarrow> string \<Rightarrow> string \<Rightarrow> string \<Rightarrow> (string \<times> kwval) list
     \<Rightarrow> (response, 'jar, 'srv) action" where
  "Application_request E self m base endpoint kw =
     (case s self of
        None \<Rightarrow> raise AttributeError
      | Some r \<Rightarrow> Session_request E r m (base @ endpoint) kw)"

text \<open>
  \<open>BASE\<close> is a class attribute; of the classes of the module only \<open>CAS\<close> defines it.
  \<open>get\<close> and \<open>post\<close> call \<open>self.request\<close>, which is \<open>Application.request\<close> for
  every class that has a \<open>BASE\<close> here.
\<close>

fun BASE :: "cls \<Rightarrow> string option" where
  "BASE CAS = Some ''https://cas.ucdavis.edu''"
| "BASE c = None"

definition LOGIN_ENDPOINT :: string where
  "LOGIN_ENDPOINT = ''/cas/login''"

definition get :: "('jar, 'srv) env \<Rightarrow> obj \<Rightarrow> string \<Rightarrow> (string \<times> kwval) list \<Rightarrow> (response, 'jar, 'srv) action" where
  "get E self endpoint kw =
     (case BASE (cls self) of
        None \<Rightarrow> raise AttributeError
      | Some b \<Rightarrow> Application_request E self ''get'' b endpoint kw)"

definition post :: "('jar, 'srv) env \<Rightarrow> obj \<Rightarrow> string \<Rightarrow> (string \<times> kwval) list \<Rightarrow> (response, 'jar, 'srv) action" where
  "post E self endpoint kw =
     (case BASE (cls self) of
        None \<Rightarrow> raise AttributeError
      | Some b \<Rightarrow> Application_request E self ''post'' b endpoint kw)"

subsection \<open>The parsed document of BeautifulSoup\<close>

text \<open>
  What the code uses of \<open>bs4\<close>, on the tree that the parser (a parameter) returns:
  \<open>descendants\<close> lists the nodes below a tag in document order; \<open>find\<close> with a tag
  name and an attribute value returns the first matching tag below the root or
  \<open>None\<close>; \<open>find_all(text=False)\<close> returns every tag below the root and no text node;
  \<open>has_attr\<close> and indexing read the attribute dictionary of a tag.
\<close>

fun descendants :: "node \<Rightarrow> node list" where
  "descendants (Tag nm al cs) = concat (map (\<lambda>c. c # descendants c) cs)"
| "descendants (NavigableString txt) = []"

fun is_tag :: "node \<Rightarrow> bool" where
  "is_tag (Tag nm al cs) = True"
| "is_tag (NavigableString txt) = False"

fun has_attr :: "node \<Rightarrow> string \<Rightarrow> bool" where
  "has_attr (Tag nm al cs) k = (map_of al k \<noteq> None)"
| "has_attr (NavigableString txt) k = False"

fun tag_getitem :: "node \<Rightarrow> string \<Rightarrow> exn + string" where
  "tag_getitem (Tag nm al cs) k = getitem al k"
| "tag_getitem (NavigableString txt) k = Inl KeyError"

definition find_tag :: "node \<Rightarrow> string \<Rightarrow> string \<Rightarrow> string \<Rightarrow> node option" where
  "find_tag root nm k v =
     find (\<lambda>n. is_tag n \<and> tag_name n = nm \<and> tag_getitem n k = Inr v) (descendants root)"

definition find_all_tags :: "node \<Rightarrow> node list" where
  "find_all_tags root = filter is_tag (descendants root)"

subsection \<open>ProtectedApplication and its authentication service\<close>

definition CAS_init :: "('jar, 'srv) env \<Rightarrow> pyval \<Rightarrow> pyval \<Rightarrow> arg \<Rightarrow> (obj, 'jar, 'srv) action" where
  "CAS_init E u p shared_app =
     andthen (Application_init E (new_obj CAS) shared_app) (\<lambda>self.
     ret (set_password p (set_username u self)))"

definition ProtectedApplication_init ::
  "('jar, 'srv) env \<Rightarrow> pyval \<Rightarrow> pyval \<Rightarrow> arg \<Rightarrow> (obj, 'jar, 'srv) action" where
  "ProtectedApplication_init E u p shared_app =
     andthen (Application_init E (new_obj ProtectedApplication) shared_app) (\<lambda>self.
     andthen
       (if isinstance shared_app ProtectedApplication then
          andthen (lift (getattr_username shared_app)) (\<lambda>su.
          andthen (lift (getattr_password shared_app)) (\<lambda>sp.
          andthen (CAS_init E su sp (AObj self)) (\<lambda>c.
          ret (set_auth_service c self))))
        else ret self) (\<lambda>self.
     if py_truthy (py_and u p) then
       andthen (CAS_init E u p (AObj self)) (\<lambda>c. ret (set_auth_service c self))
     else ret self))"

definition success_marker :: string where
  \<open>success_marker = ''<div id="msg" class="success"''\<close>

text \<open>
  The loop of \<open>auth\<close> over the tags of the form: a tag with both a \<open>name\<close> and a
  \<open>value\<close> attribute sets that key of \<open>data\<close>.
\<close>

fun collect_fields :: "node list \<Rightarrow> (string \<times> pyval) list \<Rightarrow> (string \<times> pyval) list" where
  "collect_fields [] data = data"
| "collect_fields (child # rest) data =
     (if has_attr child ''name'' \<and> has_attr child ''value'' then
        (case (tag_getitem child ''name'', tag_getitem child ''value'') of
           (Inr k, Inr v) \<Rightarrow> collect_fields rest (dict_set k (PStr v) data)
         | _ \<Rightarrow> collect_fields rest data)
      else collect_fields rest data)"

definition count_login :: "(unit, 'jar, 'srv) action" where
  "count_login w = (Inr (), w\<lparr>logins := Suc (logins w)\<rparr>)"

definition auth :: "('jar, 'srv) env \<Rightarrow> obj \<Rightarrow> (unit, 'jar, 'srv) action" where
  "auth E self =
     andthen count_login (\<lambda>_.
     andthen (get E self LOGIN_ENDPOINT []) (\<lambda>auth_page.
     if contains success_marker (body_text auth_page) then ret ()
     else
       (case find_tag (BeautifulSoup E (body_text auth_page)) ''form'' ''id'' ''fm1'' of
          None \<Rightarrow> raise AttributeError
        | Some login_form \<Rightarrow>
            andthen (lift (getattr_username (AObj self))) (\<lambda>u.
            andthen (lift (getattr_password (AObj self))) (\<lambda>p.
            andthen (lift (tag_getitem login_form ''action'')) (\<lambda>act.
            andthen (post E self act
                       [(''data'', KDict (dict_set ''password'' p (dict_set ''username'' u
                            (collect_fields (find_all_tags login_form) []))))]) (\<lambda>r.
            if \<not> contains success_marker (body_text r) then raise InvalidLoginError
            else ret ())))))))"

definition ProtectedApplication_request ::
  "('jar, 'srv) env \<Rightarrow> obj \<Rightarrow> string \<Rightarrow> string \<Rightarrow> string \<Rightarrow> (string \<times> kwval) list
     \<Rightarrow> (response, 'jar, 'srv) action" where
  "ProtectedApplication_request E self m base endpoint kw =
     andthen (Application_request E self m base endpoint kw) (\<lambda>r.
     if \<not> contains ''cas.ucdavis'' (url r) then ret r
     else
       (case auth_service self of
          None \<Rightarrow> raise AttributeError
        | Some a \<Rightarrow>
            andthen (auth E a) (\<lambda>_. Application_request E self m base endpoint kw)))"

subsection \<open>What a login form submits\<close>

text \<open>
  Two descriptions of the form, to compare with the dictionary that \<open>auth\<close> builds:
  \<open>field_pairs\<close> lists the name and value of every tag below the form that has both
  attributes, in document order; \<open>hidden_pairs\<close> lists those of the hidden fields
  only, the tags whose \<open>type\<close> is \<open>hidden\<close>.
\<close>

definition is_hidden :: "node \<Rightarrow> bool" where
  "is_hidden child = (tag_getitem child ''type'' = Inr ''hidden'')"

definition pair_of :: "node \<Rightarrow> (string \<times> pyval) list" where
  "pair_of child =
     (case (tag_getitem child ''name'', tag_getitem child ''value'') of
        (Inr k, Inr v) \<Rightarrow> [(k, PStr v)]
      | _ \<Rightarrow> [])"

definition field_pairs :: "node \<Rightarrow> (string \<times> pyval) list" where
  "field_pairs form = concat (map pair_of (find_all_tags form))"

definition hidden_pairs :: "node \<Rightarrow> (string \<times> pyval) list" where
  "hidden_pairs form = concat (map pair_of (filter is_hidden (find_all_tags form)))"

definition form_data :: "pyval \<Rightarrow> pyval \<Rightarrow> node \<Rightarrow> (string \<times> pyval) list" where
  "form_data u p form =
     dict_set ''password'' p (dict_set ''username'' u
       (collect_fields (find_all_tags form) []))"

definition login_url :: string where
  "login_url = ''https://cas.ucdavis.edu'' @ LOGIN_ENDPOINT"

subsection \<open>Predicates on the history of requests\<close>

definition cas_only :: "'jar wire_request list \<Rightarrow> bool" where
  "cas_only A = (\<forall>q\<in>set A. startswith (req_url q) ''https://cas.ucdavis.edu'')"

definition original_only ::
  "string \<Rightarrow> string \<Rightarrow> (string \<times> kwval) list \<Rightarrow> 'jar wire_request list \<Rightarrow> bool" where
  "original_only m u kw R = (\<forall>q\<in>set R. http_method q = m \<and> req_url q = u \<and> kwargs q = kw)"

subsection \<open>The domain of a URL\<close>

text \<open>
  The specification speaks of a final URL that belongs to the domain of the
  authentication provider.  In its words: the host of a URL is what stands between the
  scheme and the first of the characters that end the host, and a URL belongs to the
  provider's domain when its host is the host of \<open>CAS.BASE\<close>.  The code does not
  compute this; it tests for the substring \<open>cas.ucdavis\<close>.
\<close>

definition strip_scheme :: "string \<Rightarrow> string" where
  "strip_scheme u =
     (if startswith u ''https://'' then drop 8 u
      else if startswith u ''http://'' then drop 7 u
      else u)"

definition url_host :: "string \<Rightarrow> string" where
  "url_host u = takeWhile (\<lambda>c. c \<notin> set ''/?#:'') (strip_scheme u)"

definition belongs_to_provider_domain :: "string \<Rightarrow> bool" where
  "belongs_to_provider_domain u = (url_host u = ''cas.ucdavis.edu'')"

section \<open>Concrete inputs\<close>

subsection \<open>Terms and courses\<close>

definition term_A :: Term where
  "term_A = \<lparr>oid = 1, year = PInt 2014, session = FALL_QUARTER\<rparr>"

definition term_B :: Term where
  "term_B = \<lparr>oid = 2, year = PStr ''2014'', session = FALL_QUARTER\<rparr>"

definition term_C :: Term where
  "term_C = \<lparr>oid = 3, year = PInt 2015, session = FALL_QUARTER\<rparr>"

definition attrs_A :: "(string \<times> pyval) list" where
  "attrs_A =
     [(''name'', PStr ''ECS 040''), (''number'', PStr ''040''), (''section'', PStr ''A01''),
      (''title'', PStr ''Intro to Programming''), (''units'', PInt 4),
      (''instructor'', PStr ''Sean Davis''),
      (''subject'', PStr ''Engineering Computer Science''),
      (''ge_credit'', PStr ''Science & Engineering''), (''available_seats'', PInt 30),
      (''max_enrollment'', PInt 99), (''meetings'', PStr ''TR 10:30 - 11:50 AM''),
      (''description'', PStr ''Programming in C''), (''final_exam'', PStr ''See Instructor''),
      (''drop_time'', PStr ''20 Day Drop'')]"

definition attrs_B :: "(string \<times> pyval) list" where
  "attrs_B =
     [(''drop_time'', PStr ''10 Day Drop''), (''final_exam'', PNone),
      (''description'', PStr ''''), (''meetings'', PNone), (''max_enrollment'', PInt 10),
      (''available_seats'', PInt 0), (''ge_credit'', PNone), (''subject'', PStr ''Music''),
      (''instructor'', PStr ''The Staff''), (''units'', PInt 2), (''title'', PStr ''Choir''),
      (''section'', PStr ''002''), (''number'', PStr ''144''), (''name'', PStr ''MUS 144'')]"

definition course_A :: "pyval Course" where
  "course_A =
     \<lparr>crn = PInt 74382, course_term = term_A, name = PStr ''ECS 040'',
      number = PStr ''040'', section_code = PStr ''A01'',
      title = PStr ''Intro to Programming'', units = PInt 4,
      instructor = PStr ''Sean Davis'', subject = PStr ''Engineering Computer Science'',
      ge_credit = PStr ''Science & Engineering'', available_seats = PInt 30,
      max_enrollment = PInt 99, meetings = PStr ''TR 10:30 - 11:50 AM'',
      description = PStr ''Programming in C'', final_exam = PStr ''See Instructor'',
      drop_time = PStr ''20 Day Drop''\<rparr>"

definition course_B :: "pyval Course" where
  "course_B =
     \<lparr>crn = PInt 74382, course_term = term_B, name = PStr ''MUS 144'',
      number = PStr ''144'', section_code = PStr ''002'', title = PStr ''Choir'',
      units = PInt 2, instructor = PStr ''The Staff'', subject = PStr ''Music'',
      ge_credit = PNone, available_seats = PInt 0, max_enrollment = PInt 10,
      meetings = PNone, description = PStr '''', final_exam = PNone,
      drop_time = PStr ''10 Day Drop''\<rparr>"

text \<open>
  Three courses with the attributes of \<open>course_A\<close>: another reference number, the
  reference number as a string, another term.
\<close>

definition course_C :: "pyval Course" where
  "course_C = course_A\<lparr>crn := PInt 74383\<rparr>"

definition course_D :: "pyval Course" where
  "course_D = course_A\<lparr>crn := PStr ''74382''\<rparr>"

definition course_E :: "pyval Course" where
  "course_E = course_A\<lparr>course_term := term_C\<rparr>"

subsection \<open>A simulated library, authentication provider and protected site\<close>

text \<open>
  The simulated library keeps each cookie under the domain that set it.  The provider
  logs a session in when it receives the credentials \<open>alice\<close>/\<open>secret\<close> and the
  hidden field \<open>lt\<close> of the login form, and sets the cookie \<open>CASTGC\<close> of its domain;
  to a session that shows this cookie its login page answers with the success marker
  and sets \<open>JSESSIONID\<close>.  The protected site serves a session that has the site's
  cookie \<open>sid\<close>.  A session without it is sent to the provider: with \<open>CASTGC\<close> it
  comes back, gets \<open>sid\<close> and is served, the redirects being followed inside the one
  request; without, it ends on the login page, at a URL of the provider.  The state
  of the servers counts the requests.
\<close>

type_synonym jar = "((string \<times> string) \<times> string) list"

definition success_html :: string where
  "success_html = success_marker @ ''>Log In Successful</div>''"

definition login_html :: string where
  "login_html = ''login form: lt, execution''"

definition login_html_submit :: string where
  "login_html_submit = ''login form: lt, submit button''"

definition login_form :: node where
  "login_form =
     Tag ''form'' [(''id'', ''fm1''), (''action'', ''/cas/login'')]
       [Tag ''input'' [(''type'', ''hidden''), (''name'', ''lt''), (''value'', ''X'')] [],
        Tag ''input'' [(''type'', ''hidden''), (''name'', ''execution''), (''value'', ''Y'')] [],
        Tag ''input'' [(''type'', ''password''), (''name'', ''password'')] []]"

definition login_form_submit :: node where
  "login_form_submit =
     Tag ''form'' [(''id'', ''fm1''), (''action'', ''/cas/login'')]
       [Tag ''input'' [(''type'', ''hidden''), (''name'', ''lt''), (''value'', ''X'')] [],
        NavigableString ''Log in: '',
        Tag ''input'' [(''type'', ''submit''), (''name'', ''submit''), (''value'', ''LOGIN'')] []]"

definition sim_parse :: "string \<Rightarrow> node" where
  "sim_parse txt =
     (if txt = login_html then Tag ''[document]'' [] [Tag ''body'' [] [login_form]]
      else if txt = login_html_submit then
        Tag ''[document]'' [] [Tag ''body'' [] [login_form_submit]]
      else Tag ''[document]'' [] [NavigableString txt])"

definition good_login :: "(string \<times> kwval) list \<Rightarrow> bool" where
  "good_login kw =
     (case map_of kw ''data'' of
        Some (KDict d) \<Rightarrow>
          map_of d ''username'' = Some (PStr ''alice'')
          \<and> map_of d ''password'' = Some (PStr ''secret'')
          \<and> map_of d ''lt'' = Some (PStr ''X'')
      | _ \<Rightarrow> False)"

definition CASTGC :: "string \<times> string" where
  "CASTGC = (''cas.ucdavis.edu'', ''CASTGC'')"

definition JSESSIONID :: "string \<times> string" where
  "JSESSIONID = (''cas.ucdavis.edu'', ''JSESSIONID'')"

definition sid :: "string \<times> string" where
  "sid = (''registrar.ucdavis.edu'', ''sid'')"

definition sim_transport ::
  "string \<Rightarrow> jar wire_request \<Rightarrow> nat \<Rightarrow> (exn + response) \<times> jar \<times> nat" where
  "sim_transport page q n =
     (if req_url q = ''https://cas.ucdavis.edu/cas/login'' then
        (if http_method q = ''post'' \<and> good_login (kwargs q) then
           (Inr \<lparr>url = req_url q, body_text = success_html\<rparr>,
            dict_set CASTGC ''T'' (sent_cookies q), Suc n)
         else if map_of (sent_cookies q) CASTGC = Some ''T'' then
           (Inr \<lparr>url = req_url q, body_text = success_html\<rparr>,
            dict_set JSESSIONID ''J'' (sent_cookies q), Suc n)
         else
           (Inr \<lparr>url = req_url q, body_text = page\<rparr>, sent_cookies q, Suc n))
      else if map_of (sent_cookies q) sid = Some ''S'' then
        (Inr \<lparr>url = req_url q, body_text = ''courses''\<rparr>, sent_cookies q, Suc n)
      else if map_of (sent_cookies q) CASTGC = Some ''T'' then
        (Inr \<lparr>url = req_url q, body_text = ''courses''\<rparr>,
         dict_set sid ''S'' (sent_cookies q), Suc n)
      else
        (Inr \<lparr>url = ''https://cas.ucdavis.edu/cas/login?service=x'', body_text = page\<rparr>,
         sent_cookies q, Suc n))"

definition sim_env :: "string \<Rightarrow> (jar, nat) env" where
  "sim_env page =
     \<lparr>transport = sim_transport page,
      default_headers = [(''User-Agent'', ''python-requests''), (''Accept'', ''*/*'')],
      empty_jar = [],
      BeautifulSoup = sim_parse\<rparr>"

definition E0 :: "(jar, nat) env" where
  "E0 = sim_env login_html"

text \<open>
  \<open>w0\<close> is a world without sessions.  \<open>with_jar j\<close> is a world in which one client has
  been constructed, whose session 0 has the jar \<open>j\<close>.
\<close>

definition w0 :: "(jar, nat) world" where
  "w0 = \<lparr>sessions = (\<lambda>r. \<lparr>headers = [], cookies = []\<rparr>), next_ref = 0, server = 0,
         log = [], logins = 0\<rparr>"

definition with_jar :: "jar \<Rightarrow> (jar, nat) world" where
  "with_jar j =
     \<lparr>sessions = (\<lambda>r. \<lparr>headers = [], cookies = []\<rparr>)(0 :=
         \<lparr>headers = dict_set ''User-Agent'' USER_AGENT (default_headers E0), cookies = j\<rparr>),
      next_ref = 1, server = 0, log = [], logins = 0\<rparr>"

definition w1 :: "(jar, nat) world" where
  "w1 = with_jar []"

definition w_in :: "(jar, nat) world" where
  "w_in = with_jar [(CASTGC, ''T'')]"

definition w_seen :: "(jar, nat) world" where
  "w_seen = with_jar [(CASTGC, ''T''), (JSESSIONID, ''J'')]"

definition cas_A :: obj where
  "cas_A = Obj CAS (Some 0) (Some (PStr ''alice'')) (Some (PStr ''secret'')) None"

definition cas_wrong :: obj where
  "cas_wrong = Obj CAS (Some 0) (Some (PStr ''alice'')) (Some (PStr ''guess'')) None"

definition client_A :: obj where
  "client_A = Obj ProtectedApplication (Some 0) None None (Some cas_A)"

definition client_wrong :: obj where
  "client_wrong = Obj ProtectedApplication (Some 0) None None (Some cas_wrong)"

definition client_anon :: obj where
  "client_anon = Obj ProtectedApplication (Some 0) None None None"

definition client_B :: obj where
  "client_B = Obj Application (Some 0) None None None"

definition login_data :: "(string \<times> kwval) list" where
  "login_data =
     [(''data'', KDict [(''lt'', PStr ''X''), (''execution'', PStr ''Y''),
                        (''username'', PStr ''alice''), (''password'', PStr ''secret'')])]"

definition resp_logged_in :: response where
  "resp_logged_in = \<lparr>url = ''https://cas.ucdavis.edu/cas/login'', body_text = success_html\<rparr>"

definition page_login :: response where
  "page_login = \<lparr>url = login_url, body_text = login_html\<rparr>"

definition page_login_submit :: response where
  "page_login_submit = \<lparr>url = login_url, body_text = login_html_submit\<rparr>"

definition resp_redirect :: response where
  "resp_redirect =
     \<lparr>url = ''https://cas.ucdavis.edu/cas/login?service=x'', body_text = login_html\<rparr>"

definition resp_courses :: response where
  "resp_courses = \<lparr>url = ''https://registrar.ucdavis.edu/courses'', body_text = ''courses''\<rparr>"

definition resp_ref :: response where
  "resp_ref =
     \<lparr>url = ''https://registrar.ucdavis.edu/courses?ref=cas.ucdavis'',
      body_text = ''courses''\<rparr>"

definition w2 :: "(jar, nat) world" where
  "w2 = answered 0 (wire w1 0 ''post'' ''https://cas.ucdavis.edu/cas/login'' login_data)
          [(CASTGC, ''T'')] 1 w1"

definition w1_got :: "(jar, nat) world" where
  "w1_got = answered 0 (wire w1 0 ''get'' login_url []) [] 1 w1"

definition sim_post :: "pyval \<Rightarrow> node \<Rightarrow> jar wire_request" where
  "sim_post p form =
     wire w1_got 0 ''post'' (''https://cas.ucdavis.edu'' @ ''/cas/login'')
       [(''data'', KDict (form_data (PStr ''alice'') p form))]"

definition w1a :: "(jar, nat) world" where
  "w1a = answered 0 (wire w1 0 ''get'' ''https://registrar.ucdavis.edu/courses'' [])
           [] 1 w1"

definition w2a :: "(jar, nat) world" where
  "w2a = snd (auth E0 cas_A w1a)"

definition w3a :: "(jar, nat) world" where
  "w3a = snd (auth E0 cas_wrong w1a)"

definition w2b :: "(jar, nat) world" where
  "w2b = answered 0 (wire w_in 0 ''get'' ''https://registrar.ucdavis.edu/courses'' [])
           [(CASTGC, ''T''), (sid, ''S'')] 1 w_in"

definition w_ref :: "(jar, nat) world" where
  "w_ref = answered 0
             (wire w_in 0 ''get'' ''https://registrar.ucdavis.edu/courses?ref=cas.ucdavis'' [])
             [(CASTGC, ''T''), (sid, ''S'')] 1 w_in"

section \<open>Properties of the data containers\<close>

lemma Session_value_length: "length (Session_value m) = 2"
  by (cases m) simp_all

lemma Session_value_inj: "Session_value m = Session_value m' \<Longrightarrow> m = m'"
  by (cases m; cases m') simp_all

lemma Session_call_Value: "Session_call (Value (PStr (Session_value m))) = Inr m"
  by (cases m) (simp_all add: Session_members_def)

lemma Term_init_Inr:
  assumes "Term_init a y sa = Inr t"
  shows "oid t = a \<and> year t = y \<and> Session_call sa = Inr (session t)"
  using assms by (auto simp: Term_init_def split: sum.splits)

lemma Session_call_Inr:
  assumes "Session_call sa = Inr m"
  shows "sa = Member m \<or> sa = Value (PStr (Session_value m))"
proof (cases sa)
  case (Member m')
  with assms show ?thesis by simp
next
  case (Value v)
  show ?thesis
  proof (cases v)
    case (PStr code_str)
    with assms Value have "find (\<lambda>m. Session_value m = code_str) Session_members = Some m"
      by (simp split: option.splits)
    then have "Session_value m = code_str"
      by (auto simp: find_Some_iff)
    with Value PStr show ?thesis by simp
  next
    case PNone
    with assms Value show ?thesis by simp
  next
    case (PInt n)
    with assms Value show ?thesis by simp
  qed
qed

lemma Session_value_table:
  "map Session_value Session_members =
     [''10'', ''09'', ''07'', ''06'', ''05'', ''03'', ''02'', ''01'']"
  by (simp add: Session_members_def)

text \<open>
  C8.  The constructor of \<open>Term\<close> accepts a year with a session \<open>m\<close>, given as the
  member or as its value, and with nothing else; the term it builds has the session
  \<open>m\<close> that was passed.  The \<open>code\<close> of the term is the string of the year followed by
  the value of that session, which has two characters: year 2014 and \<open>FALL_QUARTER\<close>
  give \<open>201410\<close>.
\<close>

theorem Term_code_concat:
  "Term_init a y (Member m) = Inr \<lparr>oid = a, year = y, session = m\<rparr>
   \<and> Term_init a y (Value (PStr (Session_value m))) = Inr \<lparr>oid = a, year = y, session = m\<rparr>
   \<and> code \<lparr>oid = a, year = y, session = m\<rparr> = py_str y @ Session_value m
   \<and> length (Session_value m) = 2
   \<and> (Term_init a y sa = Inr t \<longrightarrow>
        (sa = Member (session t) \<or> sa = Value (PStr (Session_value (session t))))
        \<and> code t = py_str y @ Session_value (session t))"
proof -
  have "(sa = Member (session t) \<or> sa = Value (PStr (Session_value (session t))))
        \<and> code t = py_str y @ Session_value (session t)"
    if "Term_init a y sa = Inr t"
    using Term_init_Inr [OF that] Session_call_Inr [of sa "session t"]
    by (simp add: code_def)
  moreover have "Term_init a y (Value (PStr (Session_value m)))
                   = Inr \<lparr>oid = a, year = y, session = m\<rparr>"
    unfolding Term_init_def Session_call_Value by simp
  ultimately show ?thesis
    by (simp add: Term_init_def code_def Session_value_length)
qed

theorem Term_code_concat_witness:
  "Term_init 1 (PInt 2014) (Member FALL_QUARTER) = Inr term_A
   \<and> code term_A = ''201410''
   \<and> Term_init 4 (PInt 2014) (Value (PStr ''03''))
       = Inr \<lparr>oid = 4, year = PInt 2014, session = SPRING_QUARTER\<rparr>
   \<and> map (\<lambda>m. code \<lparr>oid = 1, year = PInt 2014, session = m\<rparr>) Session_members
       = [''201410'', ''201409'', ''201407'', ''201406'', ''201405'', ''201403'',
          ''201402'', ''201401'']
   \<and> Term_init 5 (PInt 2014) (Value (PStr ''04'')) = Inl ValueError"
  using Term_code_concat [of 1 "PInt 2014" FALL_QUARTER "Member FALL_QUARTER" term_A]
        Term_code_concat [of 4 "PInt 2014" SPRING_QUARTER "Value (PStr ''03'')"
          "\<lparr>oid = 4, year = PInt 2014, session = SPRING_QUARTER\<rparr>"]
  by (simp add: Term_init_def term_A_def str_nat.simps digit_char_def code_def
        Session_members_def)

subsection \<open>The string of an integer determines the integer\<close>

lemma digit_cases:
  assumes "d < (10::nat)"
  shows "d = 0 \<or> d = 1 \<or> d = 2 \<or> d = 3 \<or> d = 4 \<or> d = 5 \<or> d = 6 \<or> d = 7 \<or> d = 8 \<or> d = 9"
  using assms by arith

lemma digit_char_inj:
  assumes "a < 10" and "b < 10" and "digit_char a = digit_char b"
  shows "a = b"
  using digit_cases [OF assms(1)] digit_cases [OF assms(2)] assms(3)
  by (auto simp: digit_char_def)

lemma digit_char_not_minus:
  assumes "d < 10"
  shows "digit_char d \<noteq> CHR ''-''"
  using digit_cases [OF assms] by (auto simp: digit_char_def)

lemma str_nat_small: "n < 10 \<Longrightarrow> str_nat n = [digit_char n]"
  by (simp add: str_nat.simps)

lemma str_nat_big:
  "\<not> n < 10 \<Longrightarrow> str_nat n = str_nat (n div 10) @ [digit_char (n mod 10)]"
  by (subst str_nat.simps) simp

lemma str_nat_nonempty: "str_nat n \<noteq> []"
  by (cases "n < 10") (simp_all add: str_nat_small str_nat_big)

lemma str_nat_no_minus: "CHR ''-'' \<notin> set (str_nat n)"
proof (induction n rule: str_nat.induct)
  case (1 n)
  show ?case
  proof (cases "n < 10")
    case True
    then show ?thesis
      using digit_char_not_minus [of n] by (auto simp: str_nat_small)
  next
    case False
    have "n mod 10 < 10" by simp
    then show ?thesis
      using False 1 digit_char_not_minus [of "n mod 10"]
      by (auto simp: str_nat_big)
  qed
qed

lemma str_nat_inj: "str_nat n = str_nat k \<Longrightarrow> n = k"
proof (induction n arbitrary: k rule: str_nat.induct)
  case (1 n)
  show ?case
  proof (cases "n < 10")
    case True
    note n = this
    show ?thesis
    proof (cases "k < 10")
      case True
      with n 1(2) show ?thesis
        by (simp add: str_nat_small digit_char_inj)
    next
      case False
      with n 1(2) str_nat_nonempty [of "k div 10"] show ?thesis
        by (simp add: str_nat_small str_nat_big)
    qed
  next
    case False
    note n = this
    show ?thesis
    proof (cases "k < 10")
      case True
      with n 1(2) str_nat_nonempty [of "n div 10"] show ?thesis
        by (simp add: str_nat_small str_nat_big)
    next
      case False
      with n 1(2) have eq: "str_nat (n div 10) = str_nat (k div 10)"
        "digit_char (n mod 10) = digit_char (k mod 10)"
        by (simp_all add: str_nat_big)
      have "n div 10 = k div 10"
        using 1(1) [OF n eq(1)] .
      moreover have "n mod 10 = k mod 10"
        using eq(2) by (intro digit_char_inj) simp_all
      ultimately show ?thesis
        by (metis div_mult_mod_eq)
    qed
  qed
qed

lemma py_str_PInt_inj: "py_str (PInt i) = py_str (PInt j) \<longleftrightarrow> i = j"
proof
  assume eq: "py_str (PInt i) = py_str (PInt j)"
  have neg: False if "py_str (PInt a) = py_str (PInt b)" "a < 0" "\<not> b < 0" for a b
  proof -
    from that have "CHR ''-'' # str_nat (nat (- a)) = str_nat (nat b)" by simp
    then have "CHR ''-'' \<in> set (str_nat (nat b))" by (metis list.set_intros(1))
    then show False using str_nat_no_minus by blast
  qed
  show "i = j"
  proof (cases "i < 0")
    case True
    show ?thesis
    proof (cases "j < 0")
      case True
      with \<open>i < 0\<close> eq have "nat (- i) = nat (- j)"
        by (simp add: str_nat_inj)
      with True \<open>i < 0\<close> show ?thesis by simp
    next
      case False
      with neg [OF eq \<open>i < 0\<close>] show ?thesis by simp
    qed
  next
    case False
    show ?thesis
    proof (cases "j < 0")
      case True
      with neg [OF eq [symmetric] True] False show ?thesis by simp
    next
      case j: False
      with False eq have "nat i = nat j"
        by (simp add: str_nat_inj)
      with False j show ?thesis by simp
    qed
  qed
qed simp

text \<open>
  C9.  Two \<open>Term\<close> instances compare equal with \<open>==\<close> exactly when the strings of their
  years are equal and their sessions are equal; the identities of the two objects play
  no part.  A term of the integer year 2014 equals one of the string year \<open>2014\<close> with
  the same session.  Between two integer years, equal strings are equal integers.
\<close>

theorem Term_eq_iff:
  assumes "Term_init a1 y1 sa1 = Inr t1" and "Term_init a2 y2 sa2 = Inr t2"
  shows "(Term_eq t1 t2 \<longleftrightarrow> (py_str y1 = py_str y2 \<and> session t1 = session t2))
       \<and> (y1 = PInt i \<and> y2 = PInt j \<longrightarrow>
            (Term_eq t1 t2 \<longleftrightarrow> (i = j \<and> session t1 = session t2)))"
proof -
  have eq: "Term_eq t1 t2 \<longleftrightarrow> (py_str y1 = py_str y2 \<and> session t1 = session t2)"
    using Term_init_Inr [OF assms(1)] Term_init_Inr [OF assms(2)]
    by (simp add: Term_eq_def)
  then show ?thesis
    using py_str_PInt_inj [of i j] by blast
qed

theorem Term_eq_iff_witness:
  "Term_init 1 (PInt 2014) (Member FALL_QUARTER) = Inr term_A
   \<and> Term_init 2 (PStr ''2014'') (Value (PStr ''10'')) = Inr term_B
   \<and> Term_init 3 (PInt 2015) (Member FALL_QUARTER) = Inr term_C
   \<and> term_A \<noteq> term_B \<and> Term_eq term_A term_B \<and> \<not> Term_eq term_A term_C"
  using Term_eq_iff [of 1 "PInt 2014" "Member FALL_QUARTER" term_A
                        2 "PStr ''2014''" "Value (PStr ''10'')" term_B]
        Term_eq_iff [of 1 "PInt 2014" "Member FALL_QUARTER" term_A
                        3 "PInt 2015" "Member FALL_QUARTER" term_C]
  by (simp add: Term_init_def Session_members_def term_A_def term_B_def term_C_def
        str_nat.simps digit_char_def)

lemma Course_init_Inr:
  assumes "Course_init c t kw = Inr x"
  shows "crn x = c \<and> course_term x = t"
  using assms unfolding Course_init_def ebind_def
  by (auto split: sum.splits)

text \<open>
  C10.  Two \<open>Course\<close> instances compare equal with \<open>==\<close> exactly when their reference
  numbers are equal and their terms are equal by the equality of \<open>Term\<close>, that is,
  have the same string of the year and the same session, whatever the fourteen
  descriptive attributes they were built from.
\<close>

theorem Course_eq_iff:
  assumes "Course_init c1 t1 kw1 = Inr x1" and "Course_init c2 t2 kw2 = Inr x2"
  shows "(Course_eq x1 x2 \<longleftrightarrow> (c1 = c2 \<and> Term_eq t1 t2))
       \<and> (Course_eq x1 x2 \<longleftrightarrow>
            (c1 = c2 \<and> py_str (year t1) = py_str (year t2) \<and> session t1 = session t2))"
  using Course_init_Inr [OF assms(1)] Course_init_Inr [OF assms(2)]
  by (simp add: Course_eq_def py_eq_def Term_eq_def)

theorem Course_eq_iff_witness:
  "Course_init (PInt 74382) term_A attrs_A = Inr course_A
   \<and> Course_init (PInt 74382) term_B attrs_B = Inr course_B
   \<and> Course_init (PInt 74383) term_A attrs_A = Inr course_C
   \<and> Course_init (PStr ''74382'') term_A attrs_A = Inr course_D
   \<and> Course_init (PInt 74382) term_C attrs_A = Inr course_E
   \<and> name course_A \<noteq> name course_B \<and> title course_A \<noteq> title course_B
   \<and> Course_eq course_A course_B
   \<and> \<not> Course_eq course_A course_C
   \<and> \<not> Course_eq course_A course_D
   \<and> \<not> Course_eq course_A course_E"
  using Course_eq_iff [of "PInt 74382" term_A attrs_A course_A
                          "PInt 74382" term_B attrs_B course_B]
        Course_eq_iff [of "PInt 74382" term_A attrs_A course_A
                          "PInt 74383" term_A attrs_A course_C]
        Course_eq_iff [of "PInt 74382" term_A attrs_A course_A
                          "PStr ''74382''" term_A attrs_A course_D]
        Course_eq_iff [of "PInt 74382" term_A attrs_A course_A
                          "PInt 74382" term_C attrs_A course_E]
  by (simp add: Course_init_def ebind_def getitem_def attrs_A_def attrs_B_def
        course_A_def course_B_def course_C_def course_D_def course_E_def
        term_A_def term_B_def term_C_def Term_eq_def str_nat.simps digit_char_def)

section \<open>Construction of clients\<close>

lemmas action_defs = andthen_def ret_def raise_def lift_def

lemma map_of_dict_set: "map_of (dict_set k v d) = (map_of d)(k \<mapsto> v)"
  by (induction d) (auto simp: fun_eq_iff)

lemma map_of_dict_update: "map_of (dict_update d kvs) = map_of d ++ map_of (rev kvs)"
  unfolding dict_update_def
proof (induction kvs arbitrary: d)
  case Nil
  show ?case by simp
next
  case (Cons kv kvs)
  show ?case
    by (cases kv)
       (simp add: Cons.IH map_of_dict_set fun_eq_iff map_add_def split: option.splits)
qed

lemma Application_init_shared:
  assumes "s A = Some r"
  shows "Application_init E self (AObj A) w = (Inr (set_s r self), w)"
  using assms by (simp add: Application_init_def action_defs)

lemma Application_init_fresh:
  assumes "\<not> arg_truthy sa"
  shows "Application_init E self sa w =
          (Inr (set_s (next_ref w) self),
           w\<lparr>sessions := (sessions w)(next_ref w :=
                 \<lparr>headers = dict_set ''User-Agent'' USER_AGENT (default_headers E),
                  cookies = empty_jar E\<rparr>),
             next_ref := Suc (next_ref w)\<rparr>)"
  using assms
  by (simp add: Application_init_def action_defs requests_Session_def headers_update_def
        dict_update_def)

lemma Application_init_cases:
  assumes "Application_init E self sa w = (Inr x, w')"
  shows "\<exists>r. x = set_s r self"
  using assms
  by (cases sa)
     (auto simp: Application_init_def action_defs requests_Session_def headers_update_def
           split: if_splits option.splits sum.splits)

lemma sim_init_fresh:
  "Application_init E0 self (AVal PNone) w0 = (Inr (set_s 0 self), w1)"
  by (simp add: Application_init_fresh w0_def w1_def with_jar_def E0_def sim_env_def)

lemma CAS_init_self:
  assumes "s x = Some r"
  shows "CAS_init E u p (AObj x) w = (Inr (Obj CAS (Some r) (Some u) (Some p) None), w)"
  using assms by (simp add: CAS_init_def Application_init_shared action_defs new_obj_def)

lemma obj_set_s [simp]:
  "s (set_s r x) = Some r" "cls (set_s r x) = cls x" "username (set_s r x) = username x"
  "password (set_s r x) = password x" "auth_service (set_s r x) = auth_service x"
  by (cases x; simp)+

lemma obj_set_auth_service [simp]:
  "s (set_auth_service c x) = s x" "cls (set_auth_service c x) = cls x"
  "username (set_auth_service c x) = username x"
  "password (set_auth_service c x) = password x"
  "auth_service (set_auth_service c x) = Some c"
  by (cases x; simp)+

lemma new_obj_sel [simp]:
  "s (new_obj c) = None" "cls (new_obj c) = c" "username (new_obj c) = None"
  "password (new_obj c) = None" "auth_service (new_obj c) = None"
  by (simp_all add: new_obj_def)

lemma ProtectedApplication_init_attrs:
  assumes "ProtectedApplication_init E u p sa w = (Inr x, w')"
  shows "cls x = ProtectedApplication \<and> username x = None \<and> password x = None
       \<and> (\<exists>r. s x = Some r)"
proof -
  from assms obtain x0 w0' where a: "Application_init E (new_obj ProtectedApplication) sa w = (Inr x0, w0')"
    by (auto simp: ProtectedApplication_init_def andthen_def split: prod.splits sum.splits)
  then obtain r where x0: "x0 = set_s r (new_obj ProtectedApplication)"
    using Application_init_cases by blast
  have sr: "s x0 = Some r" by (simp add: x0)
  show ?thesis
    using assms a
    by (auto simp: ProtectedApplication_init_def action_defs CAS_init_self [OF sr] x0
             split: if_splits sum.splits prod.splits)
qed

lemma ProtectedApplication_init_protected_shared:
  assumes "cls A = ProtectedApplication" and "username A = None" and "s A = Some r"
  shows "ProtectedApplication_init E u p (AObj A) w = (Inl AttributeError, w)"
  using assms
  by (simp add: ProtectedApplication_init_def action_defs Application_init_shared)

lemma ProtectedApplication_init_no_auth_service:
  assumes "\<not> (py_truthy u \<and> py_truthy p)" and "\<not> isinstance sa ProtectedApplication"
    and "ProtectedApplication_init E u p sa w = (Inr x, w')"
  shows "auth_service x = None"
proof -
  have np: "\<not> py_truthy (py_and u p)"
    using assms(1) by (auto simp: py_and_def)
  from assms(3) obtain x0 w0' where a: "Application_init E (new_obj ProtectedApplication) sa w = (Inr x0, w0')"
    by (auto simp: ProtectedApplication_init_def andthen_def split: prod.splits sum.splits)
  then obtain r where x0: "x0 = set_s r (new_obj ProtectedApplication)"
    using Application_init_cases by blast
  show ?thesis
    using assms(2,3) a np
    by (auto simp: ProtectedApplication_init_def action_defs x0
             split: if_splits sum.splits prod.splits)
qed

section \<open>Requests\<close>

lemma Session_request_cases:
  "Session_request E r m u kw w =
     (case transport E (wire w r m u kw) (server w) of
        (res, j, srv) \<Rightarrow> (res, answered r (wire w r m u kw) j srv w))"
  by (simp add: Session_request_def Let_def split: prod.splits)

lemma Session_request_history:
  assumes "Session_request E r m u kw w = (res, w')"
  shows "log w' = log w @ [wire w r m u kw] \<and> logins w' = logins w
       \<and> next_ref w' = next_ref w"
  using assms
  by (auto simp: Session_request_cases answered_def split: prod.splits)

lemma Session_request_jar:
  assumes "Session_request E r m u kw w = (res, w')"
  shows "cookies (sessions w' r) = fst (snd (transport E (wire w r m u kw) (server w)))"
  using assms
  by (auto simp: Session_request_cases answered_def split: prod.splits)

lemma Application_request_session:
  assumes "s x = Some r"
  shows "Application_request E x m b e kw = Session_request E r m (b @ e) kw"
  using assms by (simp add: Application_request_def)

section \<open>Clients without an authentication service\<close>

text \<open>
  C7.  A \<open>ProtectedApplication\<close> constructed without a true username and a true
  password, and with a \<open>shared_app\<close> that is not a \<open>ProtectedApplication\<close>
  (\<open>None\<close> included), has no \<open>auth_service\<close> attribute.  A request of it whose
  response has a final URL containing \<open>cas.ucdavis\<close> raises \<open>AttributeError\<close> after
  that single request: no login is started and the request is not repeated.
\<close>

theorem missing_auth_service:
  assumes "\<not> (py_truthy u \<and> py_truthy p)"
    and "\<not> isinstance sa ProtectedApplication"
    and "ProtectedApplication_init E u p sa w = (Inr self, w')"
    and "Application_request E self m b e kw v = (Inr resp, v')"
    and "contains ''cas.ucdavis'' (url resp)"
  shows "auth_service self = None
       \<and> ProtectedApplication_request E self m b e kw v = (Inl AttributeError, v')
       \<and> logins v' = logins v
       \<and> length (log v') = Suc (length (log v))"
proof -
  have none: "auth_service self = None"
    using ProtectedApplication_init_no_auth_service [OF assms(1,2,3)] .
  obtain r where r: "s self = Some r"
    using ProtectedApplication_init_attrs [OF assms(3)] by blast
  have hist: "log v' = log v @ [wire v r m (b @ e) kw] \<and> logins v' = logins v"
    using assms(4) Session_request_history [of E r m "b @ e" kw v "Inr resp" v']
    by (simp add: Application_request_session [OF r])
  have "ProtectedApplication_request E self m b e kw v = (Inl AttributeError, v')"
    using assms(4,5) none
    by (simp add: ProtectedApplication_request_def action_defs)
  with none hist show ?thesis by simp
qed

lemma sim_init_anon:
  "ProtectedApplication_init E0 PNone PNone (AVal PNone) w0 = (Inr client_anon, w1)"
  by (simp add: ProtectedApplication_init_def andthen_def ret_def sim_init_fresh py_and_def
        client_anon_def new_obj_def)

lemma contains_cas_login:
  "contains ''cas.ucdavis'' ''https://cas.ucdavis.edu/cas/login?service=x''"
  by simp

lemma sim_first_request:
  "Application_request E0 client_anon ''get'' ''https://registrar.ucdavis.edu'' ''/courses'' [] w1
     = (Inr resp_redirect, w1a)"
  by (simp add: Application_request_def client_anon_def Session_request_cases E0_def
        sim_env_def sim_transport_def wire_def w1_def with_jar_def w1a_def resp_redirect_def
        CASTGC_def sid_def)

theorem missing_auth_service_witness:
  "\<not> (py_truthy PNone \<and> py_truthy PNone)
   \<and> \<not> isinstance (AVal PNone) ProtectedApplication
   \<and> ProtectedApplication_init E0 PNone PNone (AVal PNone) w0 = (Inr client_anon, w1)
   \<and> Application_request E0 client_anon ''get'' ''https://registrar.ucdavis.edu''
        ''/courses'' [] w1 = (Inr resp_redirect, w1a)
   \<and> contains ''cas.ucdavis'' (url resp_redirect)
   \<and> auth_service client_anon = None
   \<and> ProtectedApplication_request E0 client_anon ''get''
        ''https://registrar.ucdavis.edu'' ''/courses'' [] w1 = (Inl AttributeError, w1a)"
  using missing_auth_service [of PNone PNone "AVal PNone" E0 w0 client_anon w1
          "''get''" "''https://registrar.ucdavis.edu''" "''/courses''" "[]" w1
          resp_redirect w1a,
          OF _ _ sim_init_anon sim_first_request]
  by (simp add: sim_init_anon sim_first_request resp_redirect_def)

section \<open>The shared_app argument\<close>

text \<open>
  C5, as the claim states it, fails: the integer \<open>0\<close> is supplied as \<open>shared_app\<close>, is
  not an instance of \<open>Application\<close>, and the construction succeeds with a new session,
  because the constructor tests the truth of \<open>shared_app\<close> before its type.
\<close>

theorem incompatible_shared_app_counterexample:
  "\<not> isinstance (AVal (PInt 0)) Application
   \<and> fst (Application_init E0 (new_obj Application) (AVal (PInt 0)) w0)
       = Inr (Obj Application (Some 0) None None None)
   \<and> next_ref (snd (Application_init E0 (new_obj Application) (AVal (PInt 0)) w0)) = 1"
  by (simp add: Application_init_fresh new_obj_def w0_def)

text \<open>
  C5, amended.  For every \<open>shared_app\<close> that is true (in Python's truth test) and is not
  an instance of \<open>Application\<close> or of a subclass, the construction of an
  \<open>Application\<close>, of a \<open>CAS\<close> and of a \<open>ProtectedApplication\<close> raises \<open>ValueError\<close>
  and leaves the world as it was: no session is created.
\<close>

theorem incompatible_shared_app:
  assumes "arg_truthy sa" and "\<not> isinstance sa Application"
  shows "Application_init E self sa w = (Inl ValueError, w)
       \<and> CAS_init E u p sa w = (Inl ValueError, w)
       \<and> ProtectedApplication_init E u p sa w = (Inl ValueError, w)"
  using assms
  by (simp add: Application_init_def CAS_init_def ProtectedApplication_init_def action_defs)

theorem incompatible_shared_app_witness:
  "arg_truthy (AVal (PStr ''registrar''))
   \<and> \<not> isinstance (AVal (PStr ''registrar'')) Application
   \<and> Application_init E0 (new_obj Application) (AVal (PStr ''registrar'')) w0
       = (Inl ValueError, w0)
   \<and> ProtectedApplication_init E0 (PStr ''alice'') (PStr ''secret'') (AVal (PInt 5)) w0
       = (Inl ValueError, w0)"
  using incompatible_shared_app [of "AVal (PStr ''registrar'')" E0 "new_obj Application" w0]
        incompatible_shared_app [of "AVal (PInt 5)" E0 "new_obj Application" w0
           "PStr ''alice''" "PStr ''secret''"]
  by simp

lemma shared_jar_presented:
  assumes "s x = Some r" and "s y = Some r"
    and "Application_request E x m b e kw v = (res, v')"
  shows "cookies (sessions v' r) = fst (snd (transport E (wire v r m (b @ e) kw) (server v)))
       \<and> sent_cookies (last (log (snd (Application_request E y m' b' e' kw' v'))))
           = cookies (sessions v' r)"
proof -
  have ck: "cookies (sessions v' r)
              = fst (snd (transport E (wire v r m (b @ e) kw) (server v)))"
    using assms(3) Session_request_jar [of E r m "b @ e" kw v res v']
    by (simp add: Application_request_session [OF assms(1)])
  obtain res' v'' where nxt: "Session_request E r m' (b' @ e') kw' v' = (res', v'')"
    by (cases "Session_request E r m' (b' @ e') kw' v'")
  have "last (log v'') = wire v' r m' (b' @ e') kw'"
    using Session_request_history [OF nxt] by simp
  then show ?thesis
    using ck by (simp add: Application_request_session [OF assms(2)] nxt wire_def)
qed

lemma fresh_session:
  "\<exists>B w'. Application_init E self (AVal PNone) w = (Inr B, w')
      \<and> s B = Some (next_ref w) \<and> next_ref w' = Suc (next_ref w)
      \<and> map_of (headers (sessions w' (next_ref w))) ''User-Agent'' = Some USER_AGENT
      \<and> cookies (sessions w' (next_ref w)) = empty_jar E
      \<and> (\<forall>r. r \<noteq> next_ref w \<longrightarrow> sessions w' r = sessions w r)"
  by (simp add: Application_init_fresh map_of_dict_set)

text \<open>
  C6.  A client \<open>B\<close> constructed with \<open>shared_app = A\<close>, where \<open>A\<close> is a client with a
  session, holds the reference of \<open>A\<close> to that session, and no session is created: the
  requests of \<open>B\<close> and of \<open>A\<close> are the same requests of the same session.  After a
  request of \<open>A\<close> the jar of the session is the jar that the library has left, with
  every cookie it has stored there, and the next request of \<open>B\<close> hands this very jar
  to the library, which takes from it the cookies for the URL; and the other way
  round.  Without \<open>shared_app\<close> the client gets a new session whose \<open>User-Agent\<close>
  header is \<open>USER_AGENT\<close> and whose jar is the library's empty jar; the sessions that
  exist are not touched.
\<close>

theorem shared_session_alias:
  assumes "s A = Some r"
  shows "(\<exists>B. Application_init E self (AObj A) w = (Inr B, w) \<and> s B = s A
           \<and> Application_request E B = Application_request E A
           \<and> (Application_request E A m b e kw v = (res, v') \<longrightarrow>
                cookies (sessions v' r)
                  = fst (snd (transport E (wire v r m (b @ e) kw) (server v)))
                \<and> sent_cookies (last (log (snd
                     (Application_request E B m' b' e' kw' v')))) = cookies (sessions v' r))
           \<and> (Application_request E B m b e kw v = (res, v') \<longrightarrow>
                cookies (sessions v' r)
                  = fst (snd (transport E (wire v r m (b @ e) kw) (server v)))
                \<and> sent_cookies (last (log (snd
                     (Application_request E A m' b' e' kw' v')))) = cookies (sessions v' r)))
       \<and> (\<exists>B w'. Application_init E self (AVal PNone) w = (Inr B, w')
           \<and> s B = Some (next_ref w) \<and> next_ref w' = Suc (next_ref w)
           \<and> map_of (headers (sessions w' (next_ref w))) ''User-Agent'' = Some USER_AGENT
           \<and> cookies (sessions w' (next_ref w)) = empty_jar E
           \<and> (\<forall>r. r \<noteq> next_ref w \<longrightarrow> sessions w' r = sessions w r))"
proof -
  let ?B = "set_s r self"
  have sB: "s ?B = Some r" by simp
  have same: "Application_request E ?B = Application_request E A"
    by (intro ext) (simp add: Application_request_def assms)
  have "Application_init E self (AObj A) w = (Inr ?B, w) \<and> s ?B = s A
           \<and> Application_request E ?B = Application_request E A
           \<and> (Application_request E A m b e kw v = (res, v') \<longrightarrow>
                cookies (sessions v' r)
                  = fst (snd (transport E (wire v r m (b @ e) kw) (server v)))
                \<and> sent_cookies (last (log (snd
                     (Application_request E ?B m' b' e' kw' v')))) = cookies (sessions v' r))
           \<and> (Application_request E ?B m b e kw v = (res, v') \<longrightarrow>
                cookies (sessions v' r)
                  = fst (snd (transport E (wire v r m (b @ e) kw) (server v)))
                \<and> sent_cookies (last (log (snd
                     (Application_request E A m' b' e' kw' v')))) = cookies (sessions v' r))"
    using sB same assms Application_init_shared [OF assms, of E self w]
      shared_jar_presented [OF assms sB, of E m b e kw v res v' m' b' e' kw']
      shared_jar_presented [OF sB assms, of E m b e kw v res v' m' b' e' kw']
    by simp
  then show ?thesis
    using fresh_session [of E self w] by blast
qed

lemmas sim_defs = ProtectedApplication_request_def Application_request_def
  Session_request_cases auth_def get_def post_def andthen_def ret_def raise_def lift_def
  count_login_def E0_def sim_env_def sim_transport_def sim_parse_def wire_def answered_def
  w1_def w_in_def w_seen_def with_jar_def client_A_def client_B_def client_wrong_def
  cas_wrong_def cas_A_def find_tag_def find_all_tags_def login_form_def login_html_def
  success_html_def success_marker_def good_login_def dict_update_def getitem_def
  LOGIN_ENDPOINT_def resp_redirect_def resp_courses_def resp_ref_def w1a_def w2_def
  w2b_def w_ref_def login_data_def resp_logged_in_def CASTGC_def JSESSIONID_def sid_def

lemma sim_login_post:
  "Application_request E0 client_A ''post'' ''https://cas.ucdavis.edu'' ''/cas/login''
      login_data w1 = (Inr resp_logged_in, w2)"
  by (simp add: sim_defs)

lemma sim_B_served:
  "Application_request E0 client_B ''get'' ''https://registrar.ucdavis.edu'' ''/courses'' [] w2
     = (Inr resp_courses,
        answered 0 (wire w2 0 ''get'' ''https://registrar.ucdavis.edu/courses'' [])
          [(CASTGC, ''T''), (sid, ''S'')] 2 w2)"
  by (simp add: sim_defs)

theorem shared_session_alias_witness:
  "s client_A = Some 0
   \<and> Application_init E0 (new_obj Application) (AObj client_A) w1 = (Inr client_B, w1)
   \<and> Application_request E0 client_A ''post'' ''https://cas.ucdavis.edu'' ''/cas/login''
        login_data w1 = (Inr resp_logged_in, w2)
   \<and> cookies (sessions w1 0) = []
   \<and> cookies (sessions w2 0) = [(CASTGC, ''T'')]
   \<and> sent_cookies (last (log (snd
        (Application_request E0 client_B ''get'' ''https://registrar.ucdavis.edu''
           ''/courses'' [] w2)))) = [(CASTGC, ''T'')]
   \<and> fst (Application_request E0 client_B ''get'' ''https://registrar.ucdavis.edu''
           ''/courses'' [] w2) = Inr resp_courses
   \<and> fst (Application_request E0 client_B ''get'' ''https://registrar.ucdavis.edu''
           ''/courses'' [] w1) = Inr resp_redirect"
proof -
  have a: "s client_A = Some 0"
    by (simp add: client_A_def)
  have b: "Application_init E0 (new_obj Application) (AObj client_A) w1 = (Inr client_B, w1)"
    by (simp add: Application_init_shared [OF a] new_obj_def client_B_def)
  have c: "cookies (sessions w1 0) = []" "cookies (sessions w2 0) = [(CASTGC, ''T'')]"
    by (simp_all add: w1_def w2_def with_jar_def answered_def)
  from shared_session_alias [OF a, of E0 "new_obj Application" w1 "''post''"
      "''https://cas.ucdavis.edu''" "''/cas/login''" login_data w1 "Inr resp_logged_in" w2
      "''get''" "''https://registrar.ucdavis.edu''" "''/courses''" "[]"]
  have "sent_cookies (last (log (snd
        (Application_request E0 client_B ''get'' ''https://registrar.ucdavis.edu''
           ''/courses'' [] w2)))) = cookies (sessions w2 0)"
    using b sim_login_post by auto
  moreover have "fst (Application_request E0 client_B ''get''
           ''https://registrar.ucdavis.edu'' ''/courses'' [] w1) = Inr resp_redirect"
    by (simp add: sim_defs)
  ultimately show ?thesis
    using a b c sim_login_post sim_B_served by simp
qed

section \<open>Inherited credentials\<close>

text \<open>
  C2.  The constructor reads \<open>shared_app.username\<close> and \<open>shared_app.password\<close>, and no
  constructor of the module assigns these attributes to a \<open>ProtectedApplication\<close>: the
  credentials are attributes of its \<open>auth_service\<close>.  With the client that
  \<open>ProtectedApplication('alice', 'secret')\<close> builds as \<open>shared_app\<close>, the construction
  raises \<open>AttributeError\<close>, with explicit credentials and without.
\<close>

theorem inherited_credentials_failing_input:
  "ProtectedApplication_init E0 (PStr ''alice'') (PStr ''secret'') (AVal PNone) w0
     = (Inr client_A, w1)
   \<and> isinstance (AObj client_A) ProtectedApplication
   \<and> ProtectedApplication_init E0 PNone PNone (AObj client_A) w1 = (Inl AttributeError, w1)
   \<and> ProtectedApplication_init E0 (PStr ''bob'') (PStr ''hunter2'') (AObj client_A) w1
       = (Inl AttributeError, w1)"
proof -
  have "ProtectedApplication_init E0 (PStr ''alice'') (PStr ''secret'') (AVal PNone) w0
          = (Inr client_A, w1)"
    by (simp add: ProtectedApplication_init_def andthen_def ret_def sim_init_fresh py_and_def
          client_A_def cas_A_def new_obj_def CAS_init_self)
  moreover have "cls client_A = ProtectedApplication" "username client_A = None"
      "s client_A = Some 0"
    by (simp_all add: client_A_def)
  ultimately show ?thesis
    by (simp add: ProtectedApplication_init_protected_shared)
qed

section \<open>The login transaction\<close>

lemma has_attr_getitem:
  "has_attr child k \<longleftrightarrow> (\<exists>v. tag_getitem child k = Inr v)"
  by (cases child) (auto simp: getitem_def split: option.splits)

lemma tag_getitem_cases: "tag_getitem child k = Inl KeyError \<or> (\<exists>v. tag_getitem child k = Inr v)"
  by (cases child) (auto simp: getitem_def split: option.splits)

lemma collect_fields_step:
  "collect_fields (child # rest) d = collect_fields rest (dict_update d (pair_of child))"
  using tag_getitem_cases [of child "''name''"] tag_getitem_cases [of child "''value''"]
  by (auto simp: has_attr_getitem pair_of_def dict_update_def)

lemma dict_update_append: "dict_update d (xs @ ys) = dict_update (dict_update d xs) ys"
  by (simp add: dict_update_def)

lemma collect_fields_pairs:
  "collect_fields tags d = dict_update d (concat (map pair_of tags))"
proof (induction tags arbitrary: d)
  case Nil
  show ?case by (simp add: dict_update_def)
next
  case (Cons child rest)
  show ?case
    by (simp only: collect_fields_step Cons.IH list.map concat.simps dict_update_append)
qed

lemma form_data_map:
  "map_of (form_data u p form) =
     (map_of (rev (field_pairs form)))(''username'' \<mapsto> u, ''password'' \<mapsto> p)"
  by (simp add: form_data_def map_of_dict_set collect_fields_pairs map_of_dict_update
        field_pairs_def)

lemma hidden_only_pairs:
  assumes "\<forall>child\<in>set (find_all_tags form).
             has_attr child ''name'' \<and> has_attr child ''value'' \<longrightarrow> is_hidden child"
  shows "field_pairs form = hidden_pairs form"
proof -
  have aux: "concat (map pair_of tags) = concat (map pair_of (filter is_hidden tags))"
    if "\<forall>child\<in>set tags. has_attr child ''name'' \<and> has_attr child ''value'' \<longrightarrow> is_hidden child"
    for tags
    using that
  proof (induction tags)
    case Nil
    show ?case by simp
  next
    case (Cons child rest)
    have "pair_of child = []" if "\<not> is_hidden child"
      using that Cons.prems tag_getitem_cases [of child "''name''"]
        tag_getitem_cases [of child "''value''"]
      by (auto simp: pair_of_def has_attr_getitem)
    with Cons show ?case by simp
  qed
  show ?thesis
    unfolding field_pairs_def hidden_pairs_def by (rule aux) (rule assms)
qed

lemma get_CAS:
  assumes "cls self = CAS" and "s self = Some r"
  shows "get E self endpoint kw = Session_request E r ''get'' (''https://cas.ucdavis.edu'' @ endpoint) kw"
    and "post E self endpoint kw = Session_request E r ''post'' (''https://cas.ucdavis.edu'' @ endpoint) kw"
  using assms by (simp_all add: get_def post_def Application_request_def)

lemma wire_logins [simp]: "wire (w\<lparr>logins := n\<rparr>) r m u kw = wire w r m u kw"
  by (simp add: wire_def)

lemma Session_request_answer:
  assumes "transport E q (server w) = (res, j, srv)" and "q = wire w r m u kw"
  shows "Session_request E r m u kw w = (res, answered r q j srv w)"
  using assms by (simp add: Session_request_cases)

lemma answered_logins:
  "answered r q j srv (w\<lparr>logins := n\<rparr>) = (answered r q j srv w)\<lparr>logins := n\<rparr>"
  by (simp add: answered_def)

lemma auth_already:
  assumes "cls self = CAS" and "s self = Some r"
    and "transport E (wire w r ''get'' login_url []) (server w) = (Inr page, j, srv)"
    and "contains success_marker (body_text page)"
  shows "auth E self w =
           (Inr (), (answered r (wire w r ''get'' login_url []) j srv w)
                       \<lparr>logins := Suc (logins w)\<rparr>)"
proof -
  let ?w = "w\<lparr>logins := Suc (logins w)\<rparr>"
  have "transport E (wire w r ''get'' login_url []) (server ?w) = (Inr page, j, srv)"
    using assms(3) by simp
  then have "Session_request E r ''get'' login_url [] ?w
               = (Inr page, answered r (wire w r ''get'' login_url []) j srv ?w)"
    by (rule Session_request_answer) simp
  then have g: "get E self LOGIN_ENDPOINT [] ?w
               = (Inr page, (answered r (wire w r ''get'' login_url []) j srv w)
                       \<lparr>logins := Suc (logins w)\<rparr>)"
    unfolding get_CAS [OF assms(1,2)] login_url_def answered_logins .
  show ?thesis
    using assms(4)
    by (simp add: auth_def andthen_def ret_def count_login_def g)
qed

lemma auth_login:
  assumes "cls self = CAS" and "s self = Some r"
    and "username self = Some u" and "password self = Some p"
    and "transport E (wire w r ''get'' login_url []) (server w) = (Inr page, j, srv)"
    and "\<not> contains success_marker (body_text page)"
    and "find_tag (BeautifulSoup E (body_text page)) ''form'' ''id'' ''fm1'' = Some form"
    and "tag_getitem form ''action'' = Inr act"
    and "v = answered r (wire w r ''get'' login_url []) j srv w"
    and "q = wire v r ''post'' (''https://cas.ucdavis.edu'' @ act)
               [(''data'', KDict (form_data u p form))]"
    and "transport E q srv = (Inr resp, j', srv')"
  shows "auth E self w =
           ((if contains success_marker (body_text resp) then Inr ()
             else Inl InvalidLoginError),
            (answered r q j' srv' v)\<lparr>logins := Suc (logins w)\<rparr>)"
proof -
  let ?w = "w\<lparr>logins := Suc (logins w)\<rparr>"
  let ?v = "v\<lparr>logins := Suc (logins w)\<rparr>"
  have "transport E (wire w r ''get'' login_url []) (server ?w) = (Inr page, j, srv)"
    using assms(5) by simp
  then have "Session_request E r ''get'' login_url [] ?w
               = (Inr page, answered r (wire w r ''get'' login_url []) j srv ?w)"
    by (rule Session_request_answer) simp
  then have g: "get E self LOGIN_ENDPOINT [] ?w = (Inr page, ?v)"
    unfolding get_CAS [OF assms(1,2)] login_url_def answered_logins assms(9) .
  have "server ?v = srv"
    by (simp add: assms(9) answered_def)
  then have "transport E q (server ?v) = (Inr resp, j', srv')"
    using assms(11) by simp
  then have "Session_request E r ''post'' (''https://cas.ucdavis.edu'' @ act)
               [(''data'', KDict (form_data u p form))] ?v
               = (Inr resp, answered r q j' srv' ?v)"
    by (rule Session_request_answer) (simp add: assms(10))
  then have p: "post E self act [(''data'', KDict (form_data u p form))] ?v
             = (Inr resp, (answered r q j' srv' v)\<lparr>logins := Suc (logins w)\<rparr>)"
    unfolding get_CAS [OF assms(1,2)] answered_logins .
  have fd: "dict_set ''password'' p (dict_set ''username'' u
              (collect_fields (find_all_tags form) [])) = form_data u p form"
    by (simp add: form_data_def)
  show ?thesis
    using assms(3,4,6,7,8)
    by (simp add: auth_def andthen_def ret_def raise_def lift_def count_login_def g fd p)
qed

lemma contains_success_html: "contains success_marker success_html"
  by (simp add: success_html_def success_marker_def)

lemma not_contains_login_html:
  "\<not> contains success_marker login_html" "\<not> contains success_marker login_html_submit"
  by (simp_all add: login_html_def login_html_submit_def success_marker_def)

lemma sim_get_logged_in:
  "transport E0 (wire w_in 0 ''get'' login_url []) (server w_in)
     = (Inr resp_logged_in, [(CASTGC, ''T''), (JSESSIONID, ''J'')], 1)"
  "transport E0 (wire w_seen 0 ''get'' login_url []) (server w_seen)
     = (Inr resp_logged_in, [(CASTGC, ''T''), (JSESSIONID, ''J'')], 1)"
  by (simp_all add: E0_def sim_env_def sim_transport_def wire_def w_in_def w_seen_def
        with_jar_def login_url_def LOGIN_ENDPOINT_def resp_logged_in_def CASTGC_def
        JSESSIONID_def)

lemma sim_jars:
  "cookies (sessions w_in 0) = [(CASTGC, ''T'')]"
  "cookies (sessions w_seen 0) = [(CASTGC, ''T''), (JSESSIONID, ''J'')]"
  by (simp_all add: w_in_def w_seen_def with_jar_def)

text \<open>
  C4, as the claim states it, fails: the body of the login page contains the success
  marker, \<open>auth\<close> returns normally after the GET, and the session is not as it was,
  because the library has stored the cookie \<open>JSESSIONID\<close> that came with the answer to
  the GET.
\<close>

theorem auth_when_logged_in_counterexample:
  "cls cas_A = CAS \<and> s cas_A = Some 0
   \<and> transport E0 (wire w_in 0 ''get'' login_url []) (server w_in)
       = (Inr resp_logged_in, [(CASTGC, ''T''), (JSESSIONID, ''J'')], 1)
   \<and> contains success_marker (body_text resp_logged_in)
   \<and> fst (auth E0 cas_A w_in) = Inr ()
   \<and> cookies (sessions w_in 0) = [(CASTGC, ''T'')]
   \<and> cookies (sessions (snd (auth E0 cas_A w_in)) 0)
       = [(CASTGC, ''T''), (JSESSIONID, ''J'')]"
proof -
  have a: "cls cas_A = CAS" and b: "s cas_A = Some 0"
    by (simp_all add: cas_A_def)
  have c: "contains success_marker (body_text resp_logged_in)"
    by (simp add: resp_logged_in_def contains_success_html)
  show ?thesis
    using a b c sim_get_logged_in(1) sim_jars(1)
    by (simp add: auth_already [OF a b sim_get_logged_in(1) c] answered_def)
qed

text \<open>
  C4, amended.  When the body of the login page already contains the success marker,
  \<open>auth\<close> returns normally right after the initial GET: that GET is the only request
  it issues, so there is no POST, and the world it leaves is the world after the GET.
  The session is changed by nothing but the GET itself: its jar is the jar that the
  library has left after the GET, and when that is the jar the session had, the
  sessions are as they were.
\<close>

theorem auth_when_logged_in:
  assumes "cls self = CAS" and "s self = Some r"
    and "transport E (wire w r ''get'' login_url []) (server w) = (Inr page, j, srv)"
    and "contains success_marker (body_text page)"
  shows "auth E self w =
           (Inr (), (answered r (wire w r ''get'' login_url []) j srv w)
                       \<lparr>logins := Suc (logins w)\<rparr>)
       \<and> log (snd (auth E self w)) = log w @ [wire w r ''get'' login_url []]
       \<and> sessions (snd (auth E self w)) = (sessions w)(r := (sessions w r)\<lparr>cookies := j\<rparr>)
       \<and> (j = cookies (sessions w r) \<longrightarrow> sessions (snd (auth E self w)) = sessions w)"
  by (simp add: auth_already [OF assms] answered_def)

theorem auth_when_logged_in_witness:
  "cls cas_A = CAS \<and> s cas_A = Some 0
   \<and> transport E0 (wire w_seen 0 ''get'' login_url []) (server w_seen)
       = (Inr resp_logged_in, [(CASTGC, ''T''), (JSESSIONID, ''J'')], 1)
   \<and> contains success_marker (body_text resp_logged_in)
   \<and> cookies (sessions w_seen 0) = [(CASTGC, ''T''), (JSESSIONID, ''J'')]
   \<and> fst (auth E0 cas_A w_seen) = Inr ()
   \<and> log (snd (auth E0 cas_A w_seen)) = log w_seen @ [wire w_seen 0 ''get'' login_url []]
   \<and> sessions (snd (auth E0 cas_A w_seen)) = sessions w_seen"
proof -
  have a: "cls cas_A = CAS" and b: "s cas_A = Some 0"
    by (simp_all add: cas_A_def)
  have c: "contains success_marker (body_text resp_logged_in)"
    by (simp add: resp_logged_in_def contains_success_html)
  note run = auth_when_logged_in [OF a b sim_get_logged_in(2) c]
  have 1: "fst (auth E0 cas_A w_seen) = Inr ()"
    using run by simp
  have 2: "log (snd (auth E0 cas_A w_seen))
             = log w_seen @ [wire w_seen 0 ''get'' login_url []]"
    using run by blast
  have 3: "sessions (snd (auth E0 cas_A w_seen)) = sessions w_seen"
    using run sim_jars(2) by metis
  show ?thesis
    using a b c 1 2 3 sim_get_logged_in(2) sim_jars(2) by simp
qed

lemma cas_A_attrs:
  "cls cas_A = CAS" "s cas_A = Some 0" "username cas_A = Some (PStr ''alice'')"
  "password cas_A = Some (PStr ''secret'')"
  by (simp_all add: cas_A_def)

lemma cas_wrong_attrs:
  "cls cas_wrong = CAS" "s cas_wrong = Some 0" "username cas_wrong = Some (PStr ''alice'')"
  "password cas_wrong = Some (PStr ''guess'')"
  by (simp_all add: cas_wrong_def)

lemma sim_get_login:
  "transport (sim_env page) (wire w1 0 ''get'' login_url []) (server w1)
     = (Inr \<lparr>url = login_url, body_text = page\<rparr>, [], 1)"
  by (simp add: sim_env_def sim_transport_def wire_def w1_def with_jar_def login_url_def
        LOGIN_ENDPOINT_def CASTGC_def)

lemma sim_find_form:
  "find_tag (BeautifulSoup (sim_env page) login_html) ''form'' ''id'' ''fm1'' = Some login_form"
  "find_tag (BeautifulSoup (sim_env page) login_html_submit) ''form'' ''id'' ''fm1''
     = Some login_form_submit"
  by (simp_all add: sim_env_def sim_parse_def find_tag_def login_form_def
        login_form_submit_def getitem_def login_html_def login_html_submit_def)

lemma sim_action:
  "tag_getitem login_form ''action'' = Inr ''/cas/login''"
  "tag_getitem login_form_submit ''action'' = Inr ''/cas/login''"
  by (simp_all add: login_form_def login_form_submit_def getitem_def)

lemma sim_form_data:
  "form_data (PStr ''alice'') p login_form =
     [(''lt'', PStr ''X''), (''execution'', PStr ''Y''), (''username'', PStr ''alice''),
      (''password'', p)]"
  "form_data (PStr ''alice'') p login_form_submit =
     [(''lt'', PStr ''X''), (''submit'', PStr ''LOGIN''), (''username'', PStr ''alice''),
      (''password'', p)]"
  by (simp_all add: form_data_def find_all_tags_def login_form_def login_form_submit_def
        getitem_def)

lemma sim_hidden_pairs:
  "hidden_pairs login_form = [(''lt'', PStr ''X''), (''execution'', PStr ''Y'')]"
  "hidden_pairs login_form_submit = [(''lt'', PStr ''X'')]"
  by (simp_all add: hidden_pairs_def find_all_tags_def login_form_def login_form_submit_def
        is_hidden_def pair_of_def getitem_def)

lemma sim_post_good:
  "transport (sim_env page') (sim_post (PStr ''secret'') login_form) 1
     = (Inr resp_logged_in, [(CASTGC, ''T'')], 2)"
  "transport (sim_env page') (sim_post (PStr ''secret'') login_form_submit) 1
     = (Inr resp_logged_in, [(CASTGC, ''T'')], 2)"
  by (simp_all add: sim_env_def sim_transport_def sim_post_def wire_def sim_form_data
        good_login_def resp_logged_in_def w1_got_def answered_def w1_def with_jar_def)

lemma sim_post_bad:
  "transport (sim_env page') (sim_post (PStr ''guess'') login_form) 1
     = (Inr \<lparr>url = login_url, body_text = page'\<rparr>, [], 2)"
  by (simp add: sim_env_def sim_transport_def sim_post_def wire_def sim_form_data
        good_login_def login_url_def LOGIN_ENDPOINT_def w1_got_def answered_def w1_def
        with_jar_def CASTGC_def)

text \<open>
  C3, amended.  When the body of the login page lacks the success marker and the page
  has the form \<open>fm1\<close> with an \<open>action\<close>, \<open>auth\<close> issues exactly two requests: the
  GET of the login page and one POST to the provider's base URL followed by that
  action.  The data of the POST is the dictionary of the name and value of every tag
  inside the form that has both attributes, hidden or not, a later tag replacing an
  earlier one of the same name, with \<open>username\<close> and \<open>password\<close> set to the
  credentials; when every such tag is a hidden field, these are the hidden field pairs.
  \<open>auth\<close> raises \<open>InvalidLoginError\<close> exactly when the body of the response to the
  POST lacks the success marker, and returns normally otherwise.
\<close>

theorem auth_login_transaction:
  assumes "cls self = CAS" and "s self = Some r"
    and "username self = Some u" and "password self = Some p"
    and "transport E (wire w r ''get'' login_url []) (server w) = (Inr page, j, srv)"
    and "\<not> contains success_marker (body_text page)"
    and "find_tag (BeautifulSoup E (body_text page)) ''form'' ''id'' ''fm1'' = Some form"
    and "tag_getitem form ''action'' = Inr act"
    and "v = answered r (wire w r ''get'' login_url []) j srv w"
    and "q = wire v r ''post'' (''https://cas.ucdavis.edu'' @ act)
               [(''data'', KDict (form_data u p form))]"
    and "transport E q srv = (Inr resp, j', srv')"
  shows "auth E self w =
           ((if contains success_marker (body_text resp) then Inr ()
             else Inl InvalidLoginError),
            (answered r q j' srv' v)\<lparr>logins := Suc (logins w)\<rparr>)
       \<and> log (snd (auth E self w)) = log w @ [wire w r ''get'' login_url [], q]
       \<and> map_of (form_data u p form) =
            (map_of (rev (field_pairs form)))(''username'' \<mapsto> u, ''password'' \<mapsto> p)
       \<and> ((\<forall>child\<in>set (find_all_tags form).
              has_attr child ''name'' \<and> has_attr child ''value'' \<longrightarrow> is_hidden child)
            \<longrightarrow> field_pairs form = hidden_pairs form)
       \<and> (fst (auth E self w) = Inl InvalidLoginError
            \<longleftrightarrow> \<not> contains success_marker (body_text resp))"
proof -
  note run = auth_login [OF assms]
  have "log (snd (auth E self w)) = log w @ [wire w r ''get'' login_url [], q]"
    by (simp add: run assms(9) answered_def)
  moreover have "fst (auth E self w) = Inl InvalidLoginError
            \<longleftrightarrow> \<not> contains success_marker (body_text resp)"
    by (simp add: run)
  ultimately show ?thesis
    using run form_data_map [of u p form] hidden_only_pairs [of form] by blast
qed

theorem auth_login_transaction_witness:
  "cls cas_A = CAS \<and> s cas_A = Some 0
   \<and> \<not> contains success_marker (body_text page_login)
   \<and> find_tag (BeautifulSoup E0 (body_text page_login)) ''form'' ''id'' ''fm1''
       = Some login_form
   \<and> tag_getitem login_form ''action'' = Inr ''/cas/login''
   \<and> contains success_marker (body_text resp_logged_in)
   \<and> fst (auth E0 cas_A w1) = Inr ()
   \<and> log (snd (auth E0 cas_A w1))
       = log w1 @ [wire w1 0 ''get'' login_url [],
                   sim_post (PStr ''secret'') login_form]
   \<and> kwargs (sim_post (PStr ''secret'') login_form) = login_data
   \<and> fst (auth E0 cas_wrong w1) = Inl InvalidLoginError"
proof -
  have g: "transport E0 (wire w1 0 ''get'' login_url []) (server w1) = (Inr page_login, [], 1)"
    using sim_get_login [of login_html] by (simp add: E0_def page_login_def)
  have n: "\<not> contains success_marker (body_text page_login)"
    by (simp add: page_login_def not_contains_login_html)
  have f: "find_tag (BeautifulSoup E0 (body_text page_login)) ''form'' ''id'' ''fm1''
             = Some login_form"
    by (simp add: page_login_def E0_def sim_find_form)
  have y: "contains success_marker (body_text resp_logged_in)"
    by (simp add: resp_logged_in_def contains_success_html)
  have ok: "transport E0 (sim_post (PStr ''secret'') login_form) 1
              = (Inr resp_logged_in, [(CASTGC, ''T'')], 2)"
    using sim_post_good(1) [of login_html] by (simp add: E0_def)
  have bad: "transport E0 (sim_post (PStr ''guess'') login_form) 1
              = (Inr page_login, [], 2)"
    using sim_post_bad [of login_html] by (simp add: E0_def page_login_def)
  have k: "kwargs (sim_post (PStr ''secret'') login_form) = login_data"
    by (simp add: sim_post_def wire_def sim_form_data login_data_def)
  note good = auth_login_transaction [OF cas_A_attrs g n f sim_action(1) w1_got_def
      sim_post_def ok]
  have 1: "fst (auth E0 cas_A w1) = Inr ()"
    using good y by simp
  have 2: "log (snd (auth E0 cas_A w1))
       = log w1 @ [wire w1 0 ''get'' login_url [],
                   sim_post (PStr ''secret'') login_form]"
    using good by blast
  from auth_login_transaction [OF cas_wrong_attrs g n f sim_action(1) w1_got_def
      sim_post_def bad]
  have 3: "fst (auth E0 cas_wrong w1) = Inl InvalidLoginError"
    using n by simp
  show ?thesis
    using 1 2 3 n f y k sim_action(1) by (simp add: cas_A_attrs)
qed

text \<open>
  C3, as the claim states it, fails: on a login form with the hidden field \<open>lt\<close> and a
  submit button that has a name and a value, the data of the POST holds the pair of
  the button too, which is not a hidden field pair.
\<close>

theorem auth_submits_button_counterexample:
  "\<not> contains success_marker (body_text page_login_submit)
   \<and> find_tag (BeautifulSoup (sim_env login_html_submit) (body_text page_login_submit))
         ''form'' ''id'' ''fm1'' = Some login_form_submit
   \<and> hidden_pairs login_form_submit = [(''lt'', PStr ''X'')]
   \<and> map kwargs (log (snd (auth (sim_env login_html_submit) cas_A w1))) =
        [[], [(''data'', KDict [(''lt'', PStr ''X''), (''submit'', PStr ''LOGIN''),
                                (''username'', PStr ''alice''),
                                (''password'', PStr ''secret'')])]]"
proof -
  let ?E = "sim_env login_html_submit"
  have g: "transport ?E (wire w1 0 ''get'' login_url []) (server w1)
             = (Inr page_login_submit, [], 1)"
    using sim_get_login [of login_html_submit] by (simp add: page_login_submit_def)
  have n: "\<not> contains success_marker (body_text page_login_submit)"
    by (simp add: page_login_submit_def not_contains_login_html)
  have f: "find_tag (BeautifulSoup ?E (body_text page_login_submit)) ''form'' ''id'' ''fm1''
             = Some login_form_submit"
    by (simp add: page_login_submit_def sim_find_form)
  have ok: "transport ?E (sim_post (PStr ''secret'') login_form_submit) 1
              = (Inr resp_logged_in, [(CASTGC, ''T'')], 2)"
    using sim_post_good(2) [of login_html_submit] by simp
  have "log (snd (auth ?E cas_A w1))
       = log w1 @ [wire w1 0 ''get'' login_url [],
                   sim_post (PStr ''secret'') login_form_submit]"
    using auth_login [OF cas_A_attrs g n f sim_action(2) w1_got_def sim_post_def ok]
    by (simp add: w1_got_def answered_def)
  then show ?thesis
    using n f
    by (simp add: sim_hidden_pairs w1_def with_jar_def wire_def sim_post_def sim_form_data)
qed

section \<open>Requests of a protected client\<close>

lemma startswith_append: "startswith (xs @ ys) xs"
  by (induction xs) simp_all

lemma Application_request_history:
  assumes "Application_request E x m b e kw w = (res, w')"
  shows "logins w' = logins w
       \<and> (case s x of None \<Rightarrow> w' = w \<and> res = Inl AttributeError
           | Some r \<Rightarrow> log w' = log w @ [wire w r m (b @ e) kw])"
  using assms Session_request_history [of E _ m "b @ e" kw w res w']
  by (auto simp: Application_request_def raise_def split: option.splits)

lemma get_post_history:
  assumes "get E x e kw w = (res, w') \<or> post E x e kw w = (res, w')"
  shows "logins w' = logins w
       \<and> (\<exists>A. log w' = log w @ A \<and> length A \<le> 1 \<and> cas_only A)"
proof (cases "BASE (cls x)")
  case None
  with assms have "w' = w"
    by (auto simp: get_def post_def raise_def)
  then show ?thesis by (simp add: cas_only_def)
next
  case (Some base)
  then have base: "base = ''https://cas.ucdavis.edu''"
    by (cases "cls x") simp_all
  from assms Some obtain m where
    req: "Application_request E x m base e kw w = (res, w')"
    by (auto simp: get_def post_def)
  show ?thesis
  proof (cases "s x")
    case None
    with Application_request_history [OF req] show ?thesis
      by (simp add: cas_only_def)
  next
    case (Some r)
    have "cas_only [wire w r m (base @ e) kw]"
      unfolding cas_only_def base using startswith_append by (simp add: wire_def)
    with Some Application_request_history [OF req] show ?thesis
      by (intro conjI exI [of _ "[wire w r m (base @ e) kw]"]) simp_all
  qed
qed

lemma cas_only_append: "cas_only A \<Longrightarrow> cas_only B \<Longrightarrow> cas_only (A @ B)"
  by (auto simp: cas_only_def)

lemma auth_history:
  assumes "auth E a w = (res, w')"
  shows "logins w' = Suc (logins w)
       \<and> (\<exists>A. log w' = log w @ A \<and> length A \<le> 2 \<and> cas_only A)"
proof -
  let ?w = "w\<lparr>logins := Suc (logins w)\<rparr>"
  obtain r1 v where g: "get E a LOGIN_ENDPOINT [] ?w = (r1, v)"
    by (cases "get E a LOGIN_ENDPOINT [] ?w")
  from get_post_history [of E a LOGIN_ENDPOINT "[]" ?w r1 v] g
  obtain A where A: "logins v = Suc (logins w)" "log v = log w @ A" "length A \<le> 1" "cas_only A"
    by auto
  have done1: ?thesis if "w' = v"
    using that A by (intro conjI exI [of _ A]) simp_all
  show ?thesis
  proof (cases "\<exists>act kw resp. post E a act kw v = (resp, w')")
    case False
    have "w' = v"
      using assms g False
      by (auto simp: auth_def andthen_def ret_def raise_def lift_def count_login_def
               split: sum.splits if_splits option.splits prod.splits)
    then show ?thesis by (rule done1)
  next
    case True
    then obtain act kw resp where p: "post E a act kw v = (resp, w')" by blast
    from get_post_history [of E a act kw v resp w'] p
    obtain B where B: "logins w' = logins v" "log w' = log v @ B" "length B \<le> 1" "cas_only B"
      by auto
    show ?thesis
      using A B cas_only_append [OF A(4) B(4)]
      by (intro conjI exI [of _ "A @ B"]) simp_all
  qed
qed

lemma contains_append: "contains sub (pre @ sub @ rest)"
proof (induction pre)
  case Nil
  show ?case
    using startswith_append [of sub rest] by (cases "sub @ rest") auto
next
  case (Cons c pre)
  then show ?case by simp
qed

lemma strip_scheme_suffix: "\<exists>pre. u = pre @ strip_scheme u"
proof -
  have "strip_scheme u = drop 8 u \<or> strip_scheme u = drop 7 u \<or> strip_scheme u = u"
    by (simp add: strip_scheme_def)
  then consider "strip_scheme u = drop 8 u" | "strip_scheme u = drop 7 u"
    | "strip_scheme u = u"
    by blast
  then show ?thesis
  proof cases
    case 1
    then have "u = take 8 u @ strip_scheme u" by simp
    then show ?thesis by (rule exI)
  next
    case 2
    then have "u = take 7 u @ strip_scheme u" by simp
    then show ?thesis by (rule exI)
  next
    case 3
    then have "u = [] @ strip_scheme u" by simp
    then show ?thesis by (rule exI)
  qed
qed

lemma provider_domain_contains:
  assumes "belongs_to_provider_domain u"
  shows "contains ''cas.ucdavis'' u"
proof -
  obtain pre where pre: "u = pre @ strip_scheme u"
    using strip_scheme_suffix by blast
  have "strip_scheme u = url_host u @ dropWhile (\<lambda>c. c \<notin> set ''/?#:'') (strip_scheme u)"
    by (simp add: url_host_def)
  then have "strip_scheme u
               = ''cas.ucdavis'' @ ''.edu'' @ dropWhile (\<lambda>c. c \<notin> set ''/?#:'') (strip_scheme u)"
    using assms by (simp add: belongs_to_provider_domain_def)
  then have "u = pre @ ''cas.ucdavis''
                  @ (''.edu'' @ dropWhile (\<lambda>c. c \<notin> set ''/?#:'') (strip_scheme u))"
    using pre by simp
  then show ?thesis
    using contains_append [of "''cas.ucdavis''" pre
        "''.edu'' @ dropWhile (\<lambda>c. c \<notin> set ''/?#:'') (strip_scheme u)"]
    by simp
qed

text \<open>
  C1, amended.  A request of a protected client whose first underlying request gets a
  response: if the final URL of the response does not contain \<open>cas.ucdavis\<close>, that
  response is the result, after this one request and no login.  If it does, as every
  URL that belongs to the domain of the authentication provider does, and \<open>auth\<close>
  returns normally, \<open>auth\<close> has been called once and the original request is issued
  once more; what this second request gives is the result, with no further test of
  its URL.  If \<open>auth\<close> raises, its error is the result and the request is not
  repeated.  In every case the history grows by the original request, then the
  requests of at most one login (at most two, to the provider), then at most one
  repetition of the original request.
\<close>

theorem protected_request:
  assumes "s self = Some r"
    and "Application_request E self m b e kw w = (Inr r1, v1)"
  shows "(\<not> contains ''cas.ucdavis'' (url r1) \<longrightarrow>
            ProtectedApplication_request E self m b e kw w = (Inr r1, v1)
            \<and> logins v1 = logins w \<and> log v1 = log w @ [wire w r m (b @ e) kw])
       \<and> (contains ''cas.ucdavis'' (url r1) \<and> auth_service self = Some a
            \<and> auth E a v1 = (Inr (), v2) \<longrightarrow>
            ProtectedApplication_request E self m b e kw w
              = Application_request E self m b e kw v2
            \<and> logins (snd (ProtectedApplication_request E self m b e kw w)) = Suc (logins w)
            \<and> (\<exists>A. log (snd (ProtectedApplication_request E self m b e kw w))
                      = log w @ [wire w r m (b @ e) kw] @ A @ [wire v2 r m (b @ e) kw]
                    \<and> length A \<le> 2 \<and> cas_only A))
       \<and> (contains ''cas.ucdavis'' (url r1) \<and> auth_service self = Some a
            \<and> auth E a v1 = (Inl x, v2) \<longrightarrow>
            ProtectedApplication_request E self m b e kw w = (Inl x, v2))
       \<and> logins (snd (ProtectedApplication_request E self m b e kw w)) \<le> Suc (logins w)
       \<and> (\<exists>A R. log (snd (ProtectedApplication_request E self m b e kw w))
                    = log w @ [wire w r m (b @ e) kw] @ A @ R
                 \<and> length A \<le> 2 \<and> cas_only A
                 \<and> length R \<le> 1 \<and> original_only m (b @ e) kw R)
       \<and> (belongs_to_provider_domain (url r1) \<longrightarrow> contains ''cas.ucdavis'' (url r1))"
proof -
  let ?PR = "ProtectedApplication_request E self m b e kw w"
  let ?q = "wire w r m (b @ e) kw"
  have h1: "logins v1 = logins w" "log v1 = log w @ [?q]"
    using Application_request_history [OF assms(2)] assms(1) by simp_all
  have direct: "?PR = (Inr r1, v1)" if "\<not> contains ''cas.ucdavis'' (url r1)"
    using that assms(2) by (simp add: ProtectedApplication_request_def andthen_def ret_def)
  have noservice: "?PR = (Inl AttributeError, v1)"
    if "contains ''cas.ucdavis'' (url r1)" "auth_service self = None"
    using that assms(2)
    by (simp add: ProtectedApplication_request_def andthen_def raise_def)
  have failed: "?PR = (Inl x', v)"
    if "contains ''cas.ucdavis'' (url r1)" "auth_service self = Some a'"
      "auth E a' v1 = (Inl x', v)" for a' x' v
    using that assms(2)
    by (simp add: ProtectedApplication_request_def andthen_def)
  have retry: "?PR = Application_request E self m b e kw v"
    if "contains ''cas.ucdavis'' (url r1)" "auth_service self = Some a'"
      "auth E a' v1 = (Inr (), v)" for a' v
    using that assms(2)
    by (simp add: ProtectedApplication_request_def andthen_def)
  have retry_hist: "logins (snd ?PR) = Suc (logins w)
       \<and> (\<exists>A. log (snd ?PR) = log w @ [?q] @ A @ [wire v r m (b @ e) kw]
               \<and> length A \<le> 2 \<and> cas_only A)"
    if "contains ''cas.ucdavis'' (url r1)" "auth_service self = Some a'"
      "auth E a' v1 = (Inr (), v)" for a' v
  proof -
    obtain res v' where nxt: "Application_request E self m b e kw v = (res, v')"
      by (cases "Application_request E self m b e kw v")
    from auth_history [OF that(3)] obtain A where
      A: "logins v = Suc (logins v1)" "log v = log v1 @ A" "length A \<le> 2" "cas_only A"
      by auto
    have "logins v' = logins v" "log v' = log v @ [wire v r m (b @ e) kw]"
      using Application_request_history [OF nxt] assms(1) by simp_all
    then show ?thesis
      using A h1 retry [OF that] nxt
      by (intro conjI exI [of _ A]) simp_all
  qed
  have fail_hist: "logins v = Suc (logins w)
       \<and> (\<exists>A. log v = log w @ [?q] @ A \<and> length A \<le> 2 \<and> cas_only A)"
    if "auth E a' v1 = (res, v)" for a' res v
  proof -
    from auth_history [OF that] obtain A where
      A: "logins v = Suc (logins v1)" "log v = log v1 @ A" "length A \<le> 2" "cas_only A"
      by auto
    then show ?thesis
      using h1 by (intro conjI exI [of _ A]) simp_all
  qed
  have bound: "logins (snd ?PR) \<le> Suc (logins w)
       \<and> (\<exists>A R. log (snd ?PR) = log w @ [?q] @ A @ R
                 \<and> length A \<le> 2 \<and> cas_only A
                 \<and> length R \<le> 1 \<and> original_only m (b @ e) kw R)"
  proof (cases "contains ''cas.ucdavis'' (url r1)")
    case False
    show ?thesis
      using direct [OF False] h1
      by (intro conjI exI [of _ "[]"]) (simp_all add: cas_only_def original_only_def)
  next
    case True
    show ?thesis
    proof (cases "auth_service self")
      case None
      show ?thesis
        using noservice [OF True None] h1
        by (intro conjI exI [of _ "[]"]) (simp_all add: cas_only_def original_only_def)
    next
      case (Some a')
      obtain res v where au: "auth E a' v1 = (res, v)"
        by (cases "auth E a' v1")
      show ?thesis
      proof (cases res)
        case (Inl x')
        from fail_hist [OF au] obtain A where
          A: "logins v = Suc (logins w)" "log v = log w @ [?q] @ A" "length A \<le> 2"
            "cas_only A"
          by auto
        show ?thesis
          using failed [OF True Some au [unfolded Inl]] A
          by (intro conjI exI [of _ A] exI [of _ "[]"]) (simp_all add: original_only_def)
      next
        case (Inr u)
        then have au': "auth E a' v1 = (Inr (), v)"
          using au by simp
        from retry_hist [OF True Some au'] obtain A where
          A: "logins (snd ?PR) = Suc (logins w)"
            "log (snd ?PR) = log w @ [?q] @ A @ [wire v r m (b @ e) kw]"
            "length A \<le> 2" "cas_only A"
          by auto
        show ?thesis
          using A
          by (intro conjI exI [of _ A] exI [of _ "[wire v r m (b @ e) kw]"])
             (simp_all add: original_only_def wire_def)
      qed
    qed
  qed
  show ?thesis
    using direct h1 retry retry_hist failed bound provider_domain_contains [of "url r1"]
    by blast
qed

lemma sim_redirect:
  "Application_request E0 client_A ''get'' ''https://registrar.ucdavis.edu'' ''/courses'' [] w1
     = (Inr resp_redirect, w1a)"
  "Application_request E0 client_wrong ''get'' ''https://registrar.ucdavis.edu'' ''/courses''
     [] w1 = (Inr resp_redirect, w1a)"
  by (simp_all add: sim_defs)

lemma sim_auth_ok: "auth E0 cas_A w1a = (Inr (), w2a)"
proof -
  have "fst (auth E0 cas_A w1a) = Inr ()"
    by (simp add: sim_defs)
  then show ?thesis
    by (simp add: w2a_def prod_eq_iff)
qed

lemma sim_auth_rejected: "auth E0 cas_wrong w1a = (Inl InvalidLoginError, w3a)"
proof -
  have "fst (auth E0 cas_wrong w1a) = Inl InvalidLoginError"
    by (simp add: sim_defs)
  then show ?thesis
    by (simp add: w3a_def prod_eq_iff)
qed

lemma sim_direct:
  "Application_request E0 client_A ''get'' ''https://registrar.ucdavis.edu'' ''/courses'' []
     w_in = (Inr resp_courses, w2b)"
  by (simp add: sim_defs)

lemma sim_ref:
  "Application_request E0 client_A ''get'' ''https://registrar.ucdavis.edu''
     ''/courses?ref=cas.ucdavis'' [] w_in = (Inr resp_ref, w_ref)"
  by (simp add: sim_defs)

lemma sim_run_good:
  "fst (ProtectedApplication_request E0 client_A ''get'' ''https://registrar.ucdavis.edu''
          ''/courses'' [] w1) = Inr resp_courses"
  "map req_url (log (snd (ProtectedApplication_request E0 client_A ''get''
          ''https://registrar.ucdavis.edu'' ''/courses'' [] w1)))
     = [''https://registrar.ucdavis.edu/courses'', ''https://cas.ucdavis.edu/cas/login'',
        ''https://cas.ucdavis.edu/cas/login'', ''https://registrar.ucdavis.edu/courses'']"
  by (simp_all add: sim_defs)

lemma sim_run_wrong:
  "fst (ProtectedApplication_request E0 client_wrong ''get'' ''https://registrar.ucdavis.edu''
          ''/courses'' [] w1) = Inl InvalidLoginError"
  "map req_url (log (snd (ProtectedApplication_request E0 client_wrong ''get''
          ''https://registrar.ucdavis.edu'' ''/courses'' [] w1)))
     = [''https://registrar.ucdavis.edu/courses'', ''https://cas.ucdavis.edu/cas/login'',
        ''https://cas.ucdavis.edu/cas/login'']"
  by (simp_all add: sim_defs)

lemma sim_run_ref:
  "fst (ProtectedApplication_request E0 client_A ''get'' ''https://registrar.ucdavis.edu''
          ''/courses?ref=cas.ucdavis'' [] w_in) = Inr resp_ref"
  "map req_url (log (snd (ProtectedApplication_request E0 client_A ''get''
          ''https://registrar.ucdavis.edu'' ''/courses?ref=cas.ucdavis'' [] w_in)))
     = [''https://registrar.ucdavis.edu/courses?ref=cas.ucdavis'',
        ''https://cas.ucdavis.edu/cas/login'',
        ''https://registrar.ucdavis.edu/courses?ref=cas.ucdavis'']"
  "logins (snd (ProtectedApplication_request E0 client_A ''get''
          ''https://registrar.ucdavis.edu'' ''/courses?ref=cas.ucdavis'' [] w_in)) = 1"
  by (simp_all add: sim_defs)

lemma sim_urls:
  "contains ''cas.ucdavis'' (url resp_redirect)"
  "\<not> contains ''cas.ucdavis'' (url resp_courses)"
  "contains ''cas.ucdavis'' (url resp_ref)"
  by (simp_all add: resp_redirect_def resp_courses_def resp_ref_def)

lemma sim_domains:
  "belongs_to_provider_domain (url resp_redirect)"
  "\<not> belongs_to_provider_domain (url resp_ref)"
  "url_host (url resp_ref) = ''registrar.ucdavis.edu''"
  by (simp_all add: resp_redirect_def resp_ref_def belongs_to_provider_domain_def
        url_host_def strip_scheme_def)

theorem protected_request_witness:
  "s client_A = Some 0
   \<and> Application_request E0 client_A ''get'' ''https://registrar.ucdavis.edu'' ''/courses''
        [] w1 = (Inr resp_redirect, w1a)
   \<and> belongs_to_provider_domain (url resp_redirect)
   \<and> contains ''cas.ucdavis'' (url resp_redirect)
   \<and> auth_service client_A = Some cas_A
   \<and> auth E0 cas_A w1a = (Inr (), w2a)
   \<and> ProtectedApplication_request E0 client_A ''get'' ''https://registrar.ucdavis.edu''
        ''/courses'' [] w1
       = Application_request E0 client_A ''get'' ''https://registrar.ucdavis.edu''
           ''/courses'' [] w2a
   \<and> fst (ProtectedApplication_request E0 client_A ''get'' ''https://registrar.ucdavis.edu''
          ''/courses'' [] w1) = Inr resp_courses
   \<and> logins (snd (ProtectedApplication_request E0 client_A ''get''
          ''https://registrar.ucdavis.edu'' ''/courses'' [] w1)) = Suc (logins w1)
   \<and> map req_url (log (snd (ProtectedApplication_request E0 client_A ''get''
          ''https://registrar.ucdavis.edu'' ''/courses'' [] w1)))
       = [''https://registrar.ucdavis.edu/courses'', ''https://cas.ucdavis.edu/cas/login'',
          ''https://cas.ucdavis.edu/cas/login'', ''https://registrar.ucdavis.edu/courses'']
   \<and> Application_request E0 client_A ''get'' ''https://registrar.ucdavis.edu'' ''/courses''
        [] w_in = (Inr resp_courses, w2b)
   \<and> \<not> contains ''cas.ucdavis'' (url resp_courses)
   \<and> ProtectedApplication_request E0 client_A ''get'' ''https://registrar.ucdavis.edu''
        ''/courses'' [] w_in = (Inr resp_courses, w2b)
   \<and> logins w2b = logins w_in
   \<and> auth_service client_wrong = Some cas_wrong
   \<and> auth E0 cas_wrong w1a = (Inl InvalidLoginError, w3a)
   \<and> ProtectedApplication_request E0 client_wrong ''get'' ''https://registrar.ucdavis.edu''
        ''/courses'' [] w1 = (Inl InvalidLoginError, w3a)"
proof -
  have a: "s client_A = Some 0" and b: "auth_service client_A = Some cas_A"
    by (simp_all add: client_A_def)
  have a': "s client_wrong = Some 0" and b': "auth_service client_wrong = Some cas_wrong"
    by (simp_all add: client_wrong_def)
  note first = protected_request [OF a sim_redirect(1), of cas_A w2a]
  note second = protected_request [OF a sim_direct]
  note third = protected_request [OF a' sim_redirect(2), of cas_wrong w3a InvalidLoginError]
  have 1: "ProtectedApplication_request E0 client_A ''get'' ''https://registrar.ucdavis.edu''
        ''/courses'' [] w1
       = Application_request E0 client_A ''get'' ''https://registrar.ucdavis.edu''
           ''/courses'' [] w2a"
    and 2: "logins (snd (ProtectedApplication_request E0 client_A ''get''
          ''https://registrar.ucdavis.edu'' ''/courses'' [] w1)) = Suc (logins w1)"
    using first sim_urls(1) b sim_auth_ok by blast+
  have 3: "ProtectedApplication_request E0 client_A ''get'' ''https://registrar.ucdavis.edu''
        ''/courses'' [] w_in = (Inr resp_courses, w2b)"
    and 4: "logins w2b = logins w_in"
    using second sim_urls(2) by blast+
  have 5: "ProtectedApplication_request E0 client_wrong ''get''
        ''https://registrar.ucdavis.edu'' ''/courses'' [] w1 = (Inl InvalidLoginError, w3a)"
    using third sim_urls(1) b' sim_auth_rejected by blast
  show ?thesis
    using a b b' 1 2 3 4 5 sim_redirect(1) sim_direct sim_urls sim_auth_ok sim_run_good
      sim_auth_rejected sim_domains(1)
    by simp
qed

text \<open>
  C1, as the claim states it, fails, at two inputs.  With credentials that the provider
  rejects, the first response is at the provider, \<open>auth\<close> raises \<open>InvalidLoginError\<close>,
  the original request has been issued once and is not issued again, and no response
  is returned.  And for a session that is logged in, a response whose final URL is at
  the protected site, not in the provider's domain, and has \<open>cas.ucdavis\<close> in its
  query, is not returned as it is: a login is started and the request is repeated.
\<close>

theorem protected_request_counterexample:
  "Application_request E0 client_wrong ''get'' ''https://registrar.ucdavis.edu'' ''/courses''
     [] w1 = (Inr resp_redirect, w1a)
   \<and> belongs_to_provider_domain (url resp_redirect)
   \<and> fst (ProtectedApplication_request E0 client_wrong ''get''
          ''https://registrar.ucdavis.edu'' ''/courses'' [] w1) = Inl InvalidLoginError
   \<and> map req_url (log (snd (ProtectedApplication_request E0 client_wrong ''get''
          ''https://registrar.ucdavis.edu'' ''/courses'' [] w1)))
       = [''https://registrar.ucdavis.edu/courses'', ''https://cas.ucdavis.edu/cas/login'',
          ''https://cas.ucdavis.edu/cas/login'']
   \<and> Application_request E0 client_A ''get'' ''https://registrar.ucdavis.edu''
        ''/courses?ref=cas.ucdavis'' [] w_in = (Inr resp_ref, w_ref)
   \<and> url_host (url resp_ref) = ''registrar.ucdavis.edu''
   \<and> \<not> belongs_to_provider_domain (url resp_ref)
   \<and> logins w_in = 0
   \<and> logins (snd (ProtectedApplication_request E0 client_A ''get''
          ''https://registrar.ucdavis.edu'' ''/courses?ref=cas.ucdavis'' [] w_in)) = 1
   \<and> map req_url (log (snd (ProtectedApplication_request E0 client_A ''get''
          ''https://registrar.ucdavis.edu'' ''/courses?ref=cas.ucdavis'' [] w_in)))
       = [''https://registrar.ucdavis.edu/courses?ref=cas.ucdavis'',
          ''https://cas.ucdavis.edu/cas/login'',
          ''https://registrar.ucdavis.edu/courses?ref=cas.ucdavis'']"
  using sim_redirect(2) sim_domains sim_run_wrong sim_ref sim_run_ref
  by (simp add: w_in_def with_jar_def)

end
